theory Spec2Isabelle
  imports Complex_Main "HOL-Library.Sublist" "HOL-Library.Multiset"
begin

section \<open>JavaScript values used by the session data manager\<close>

subsection \<open>Numbers\<close>

text \<open>
  A JavaScript number is a double: a finite value, \<open>NaN\<close> or one of the two infinities.
  A finite double is given by the rational it denotes. An arithmetic result is the
  exact result rounded to the nearest double, ties to the even significand
  (\<open>round_double\<close>): 53 significant bits for a normal value, multiples of \<open>2^-1074\<close> below
  \<open>2^-1022\<close>, an infinity once the rounded magnitude reaches \<open>2^1024\<close>. The two zeros
  are one value here: no operation of this program tells them apart. \<open>NaN\<close> is
  absorbing, \<open>Infinity - Infinity\<close> is \<open>NaN\<close> and every comparison with \<open>NaN\<close> is false.
\<close>

datatype js_number = Finite rat | NaN | PosInfinity | NegInfinity

text \<open>The number of bits of a natural number: \<open>bit_length 5 = 3\<close>.\<close>

fun bit_length :: "nat \<Rightarrow> nat" where
  "bit_length n = (if n = 0 then 0 else Suc (bit_length (n div 2)))"

declare bit_length.simps [simp del]

definition pow2 :: "int \<Rightarrow> rat" where
  "pow2 k = (if 0 \<le> k then 2 ^ nat k else 1 / 2 ^ nat (- k))"

text \<open>The exponent \<open>e\<close> of a positive rational \<open>a\<close>: \<open>2^e \<le> a < 2^(e+1)\<close>.\<close>

definition binary_exponent :: "rat \<Rightarrow> int" where
  "binary_exponent a =
     (if 1 \<le> a then int (bit_length (nat \<lfloor>a\<rfloor>)) - 1
      else - int (bit_length (nat (\<lceil>1 / a\<rceil> - 1))))"

definition ties_to_even :: "int \<Rightarrow> rat \<Rightarrow> int" where
  "ties_to_even f d =
     (if d < 1 / 2 then f else if 1 / 2 < d then f + 1 else if even f then f else f + 1)"

definition round_half_even :: "rat \<Rightarrow> int" where
  "round_half_even x = ties_to_even \<lfloor>x\<rfloor> (x - of_int \<lfloor>x\<rfloor>)"

text \<open>The multiple of \<open>2^q\<close> nearest to \<open>a\<close>.\<close>

definition round_to_unit :: "int \<Rightarrow> rat \<Rightarrow> rat" where
  "round_to_unit q a = of_int (round_half_even (a / pow2 q)) * pow2 q"

definition overflow :: "bool \<Rightarrow> rat \<Rightarrow> js_number" where
  "overflow positive v =
     (if 2 ^ 1024 \<le> v then (if positive then PosInfinity else NegInfinity)
      else Finite (if positive then v else - v))"

definition round_double :: "rat \<Rightarrow> js_number" where
  "round_double x =
     (if x = 0 then Finite 0
      else overflow (0 < x)
             (round_to_unit (max (binary_exponent \<bar>x\<bar> - 52) (- 1074)) \<bar>x\<bar>))"

fun js_add :: "js_number \<Rightarrow> js_number \<Rightarrow> js_number" where
  "js_add (Finite a) (Finite b) = round_double (a + b)"
| "js_add NaN _ = NaN"
| "js_add _ NaN = NaN"
| "js_add PosInfinity NegInfinity = NaN"
| "js_add NegInfinity PosInfinity = NaN"
| "js_add PosInfinity _ = PosInfinity"
| "js_add _ PosInfinity = PosInfinity"
| "js_add NegInfinity _ = NegInfinity"
| "js_add _ NegInfinity = NegInfinity"

fun js_neg :: "js_number \<Rightarrow> js_number" where
  "js_neg (Finite a) = Finite (- a)"
| "js_neg NaN = NaN"
| "js_neg PosInfinity = NegInfinity"
| "js_neg NegInfinity = PosInfinity"

definition js_sub :: "js_number \<Rightarrow> js_number \<Rightarrow> js_number" where
  "js_sub a b = js_add a (js_neg b)"

text \<open>\<open>Math.abs\<close>.\<close>

fun js_abs :: "js_number \<Rightarrow> js_number" where
  "js_abs (Finite a) = Finite \<bar>a\<bar>"
| "js_abs NaN = NaN"
| "js_abs PosInfinity = PosInfinity"
| "js_abs NegInfinity = PosInfinity"

text \<open>The comparison \<open>a < b\<close>.\<close>

fun js_less :: "js_number \<Rightarrow> js_number \<Rightarrow> bool" where
  "js_less (Finite a) (Finite b) = (a < b)"
| "js_less NaN _ = False"
| "js_less _ NaN = False"
| "js_less _ NegInfinity = False"
| "js_less PosInfinity _ = False"
| "js_less NegInfinity _ = True"
| "js_less _ PosInfinity = True"

text \<open>Truthiness of a number: \<open>0\<close> and \<open>NaN\<close> are falsy.\<close>

definition truthy_number :: "js_number \<Rightarrow> bool" where
  "truthy_number n = (n \<noteq> Finite 0 \<and> n \<noteq> NaN)"

text \<open>Truthiness of a string: only the empty string is falsy.\<close>

definition truthy_string :: "string \<Rightarrow> bool" where
  "truthy_string s = (s \<noteq> [])"

subsection \<open>Strings\<close>

text \<open>
  A character of a string is one of the code points \<open>U+0000\<close> to \<open>U+00FF\<close>; strings with
  other characters are outside the model. \<open>String.prototype.toLowerCase\<close> maps the
  letters \<open>A\<close> to \<open>Z\<close> and the capital letters \<open>U+00C0\<close> to \<open>U+00DE\<close> (all but the
  multiplication sign \<open>U+00D7\<close>) to the letter 32 code points higher, and keeps every
  other character. \<open>s.includes(t)\<close> holds when \<open>t\<close> occurs in \<open>s\<close> as a contiguous run.
\<close>

definition upper_letters :: string where
  "upper_letters =
     ''ABCDEFGHIJKLMNOPQRSTUVWXYZ'' @
       [CHR 0xC0, CHR 0xC1, CHR 0xC2, CHR 0xC3, CHR 0xC4, CHR 0xC5, CHR 0xC6, CHR 0xC7,
        CHR 0xC8, CHR 0xC9, CHR 0xCA, CHR 0xCB, CHR 0xCC, CHR 0xCD, CHR 0xCE, CHR 0xCF,
        CHR 0xD0, CHR 0xD1, CHR 0xD2, CHR 0xD3, CHR 0xD4, CHR 0xD5, CHR 0xD6, CHR 0xD8,
        CHR 0xD9, CHR 0xDA, CHR 0xDB, CHR 0xDC, CHR 0xDD, CHR 0xDE]"

definition lower_letters :: string where
  "lower_letters =
     ''abcdefghijklmnopqrstuvwxyz'' @
       [CHR 0xE0, CHR 0xE1, CHR 0xE2, CHR 0xE3, CHR 0xE4, CHR 0xE5, CHR 0xE6, CHR 0xE7,
        CHR 0xE8, CHR 0xE9, CHR 0xEA, CHR 0xEB, CHR 0xEC, CHR 0xED, CHR 0xEE, CHR 0xEF,
        CHR 0xF0, CHR 0xF1, CHR 0xF2, CHR 0xF3, CHR 0xF4, CHR 0xF5, CHR 0xF6, CHR 0xF8,
        CHR 0xF9, CHR 0xFA, CHR 0xFB, CHR 0xFC, CHR 0xFD, CHR 0xFE]"

definition lower_char :: "char \<Rightarrow> char" where
  "lower_char c =
     (case map_of (zip upper_letters lower_letters) c of
        None \<Rightarrow> c
      | Some l \<Rightarrow> l)"

definition toLowerCase :: "string \<Rightarrow> string" where
  "toLowerCase s = map lower_char s"

definition str_includes :: "string \<Rightarrow> string \<Rightarrow> bool" where
  "str_includes s t = sublist t s"

subsection \<open>parseFloat\<close>

text \<open>
  \<open>parseFloat\<close> skips leading white space (within \<open>U+0000\<close> to \<open>U+00FF\<close>: tab, line feed,
  vertical tab, form feed, carriage return, space and the no-break space \<open>U+00A0\<close>)
  and reads the longest prefix that is a decimal literal: an optional sign, then
  \<open>Infinity\<close> or digits with an optional fraction and an optional exponent. The result
  is the double nearest to the value of the literal; when no such prefix exists the
  result is \<open>NaN\<close>.
\<close>

definition is_space :: "char \<Rightarrow> bool" where
  "is_space c = ((of_char c :: nat) \<in> {9, 10, 11, 12, 13, 32, 160})"

definition is_digit :: "char \<Rightarrow> bool" where
  "is_digit c = (48 \<le> (of_char c :: nat) \<and> (of_char c :: nat) \<le> 57)"

definition digits_value :: "string \<Rightarrow> nat" where
  "digits_value ds = foldl (\<lambda>a c. 10 * a + ((of_char c :: nat) - 48)) 0 ds"

definition scale10 :: "rat \<Rightarrow> int \<Rightarrow> rat" where
  "scale10 m e = (if 0 \<le> e then m * 10 ^ nat e else m / 10 ^ nat (- e))"

fun exponent_part :: "string \<Rightarrow> int" where
  "exponent_part (e # s # ds) =
     (if e = CHR ''e'' \<or> e = CHR ''E'' then
        (if s = CHR ''-'' then - int (digits_value (takeWhile is_digit ds))
         else if s = CHR ''+'' then int (digits_value (takeWhile is_digit ds))
         else int (digits_value (takeWhile is_digit (s # ds))))
      else 0)"
| "exponent_part _ = 0"

definition unsigned_literal :: "string \<Rightarrow> js_number" where
  "unsigned_literal u =
     (if prefix ''Infinity'' u then PosInfinity
      else
        let ip = takeWhile is_digit u;
            r1 = dropWhile is_digit u;
            dot = (r1 \<noteq> [] \<and> hd r1 = CHR ''.'');
            fp = (if dot then takeWhile is_digit (tl r1) else []);
            r2 = (if dot then dropWhile is_digit (tl r1) else r1)
        in if ip = [] \<and> fp = [] then NaN
           else round_double (scale10 (of_nat (digits_value (ip @ fp)) / 10 ^ length fp)
                                (exponent_part r2)))"

definition parseFloat :: "string \<Rightarrow> js_number" where
  "parseFloat s =
     (case dropWhile is_space s of
        [] \<Rightarrow> NaN
      | c # r \<Rightarrow>
          if c = CHR ''-'' then js_neg (unsigned_literal r)
          else if c = CHR ''+'' then unsigned_literal r
          else unsigned_literal (c # r))"

text \<open>
  \<open>parseFloat(cells[i]?.value || 0)\<close>: a missing cell, a missing value and the empty
  string all give \<open>0\<close>; any other string is parsed.
\<close>

datatype cell = Cell (cell_value: "string option")

definition cell_amount :: "cell list \<Rightarrow> nat \<Rightarrow> js_number" where
  "cell_amount cs i =
     (if i < length cs then
        (case cell_value (cs ! i) of
           None \<Rightarrow> Finite 0
         | Some s \<Rightarrow> if truthy_string s then parseFloat s else Finite 0)
      else Finite 0)"

text \<open>
  \<open>parseFloat(x || 0)\<close> for a column value \<open>x\<close> that is a number or \<open>null\<close>: \<open>null\<close>,
  \<open>0\<close> and \<open>NaN\<close> give \<open>0\<close>; \<open>parseFloat\<close> of any other number is that number.
\<close>

definition number_or_zero :: "js_number option \<Rightarrow> js_number" where
  "number_or_zero x =
     (case x of None \<Rightarrow> Finite 0 | Some n \<Rightarrow> if truthy_number n then n else Finite 0)"

section \<open>Reports of the accounting data source\<close>

text \<open>
  A report row as the client library delivers it: every property may be absent. The
  reductions below read two levels: the rows of the report and the rows inside them.
\<close>

datatype report_row =
  ReportRow (rowType: "string option") (title: "string option")
            (cells: "cell list option") (rows: "report_row list option")

datatype report = Report (report_rows: "report_row list option")

datatype response = Response (reports: "report list option")

text \<open>\<open>response.body.reports?.[0]?.rows || []\<close>\<close>

definition first_report_rows :: "response \<Rightarrow> report_row list" where
  "first_report_rows r =
     (case reports r of
        None \<Rightarrow> []
      | Some [] \<Rightarrow> []
      | Some (rep # _) \<Rightarrow> (case report_rows rep of None \<Rightarrow> [] | Some rs \<Rightarrow> rs))"

section \<open>The durable store and the collaborators\<close>

text \<open>An exception is an \<open>Error\<close> object; the code reads its \<open>message\<close>.\<close>

datatype js_error = Error (message: string)

text \<open>The credential of a company; the loader reads its \<open>tenantName\<close>.\<close>

record token =
  tenantName :: string

text \<open>
  Modelled from the spec: the declaration of table \<open>session_company_data\<close> is not part
  of the source. Its columns are those of the two INSERT statements; the financial
  columns hold monetary magnitudes (numbers). \<open>None\<close> is the value of a column that is
  NULL or that an INSERT left to its default. Time stamps are milliseconds.
\<close>

record company_row =
  session_id :: string
  tenant_id :: string
  tenant_name :: string
  total_assets :: "js_number option"
  total_liabilities :: "js_number option"
  total_equity :: "js_number option"
  total_cash :: "js_number option"
  total_revenue :: "js_number option"
  total_expenses :: "js_number option"
  net_profit :: "js_number option"
  is_balanced :: "bool option"
  has_data :: "bool option"
  load_error :: "string option"
  expires_at :: int

text \<open>
  Modelled from the spec: table \<open>user_display_selection\<close>, one row per session (the
  upsert names \<open>session_id\<close> as its conflict key).
\<close>

record selection =
  selected_tenant_ids :: "string list"
  current_view :: string

record selection_row = selection +
  last_updated :: int

text \<open>The statements the code sends to the pool.\<close>

datatype query =
    DeleteSessionRows string
  | InsertCompanyRow company_row
  | UpsertSelection string "string list" string
  | SelectSelection string
  | SelectLiveRows string "string list"
  | CountLiveRows string

text \<open>
  The state of the store: the two tables and the statements sent so far, in the order
  they were sent.
\<close>

record world =
  session_company_data :: "company_row list"
  user_display_selection :: "string \<Rightarrow> selection_row option"
  query_log :: "query list"

text \<open>
  The collaborators. The token provider returns a credential, nothing, or throws;
  applying a credential may throw; each report fetch returns a response or throws (the
  date argument of the balance sheet fetch is the current day and is part of the
  function). What a fetch returns is fixed per company: the credential that is in force
  on the shared client at the time of the fetch is not modelled. \<open>pool_fault n q\<close> tells
  whether the store rejects statement \<open>q\<close> when it is the \<open>n\<close>-th statement sent; a
  rejected statement changes no table.
\<close>

record env =
  getXeroToken :: "string \<Rightarrow> js_error + token option"
  setTokenSet :: "token \<Rightarrow> js_error option"
  getReportBalanceSheet :: "string \<Rightarrow> js_error + response"
  getReportBankSummary :: "string \<Rightarrow> js_error + response"
  pool_fault :: "nat \<Rightarrow> query \<Rightarrow> js_error option"

text \<open>\<open>await this.pool.query(...)\<close>: log the statement, throw or run it.\<close>

definition pool_query ::
  "env \<Rightarrow> query \<Rightarrow> (world \<Rightarrow> 'a \<times> world) \<Rightarrow> world \<Rightarrow> (js_error + 'a) \<times> world" where
  "pool_query e q run w =
     (let w1 = w\<lparr>query_log := query_log w @ [q]\<rparr> in
      case pool_fault e (length (query_log w)) q of
        Some err \<Rightarrow> (Inl err, w1)
      | None \<Rightarrow> (case run w1 of (r, w2) \<Rightarrow> (Inr r, w2)))"

text \<open>\<open>DELETE FROM session_company_data WHERE session_id = $1\<close>\<close>

definition delete_session_rows :: "env \<Rightarrow> string \<Rightarrow> world \<Rightarrow> (js_error + unit) \<times> world" where
  "delete_session_rows e sid =
     pool_query e (DeleteSessionRows sid)
       (\<lambda>w. ((), w\<lparr>session_company_data :=
                       filter (\<lambda>c. session_id c \<noteq> sid) (session_company_data w)\<rparr>))"

text \<open>\<open>INSERT INTO session_company_data (...) VALUES (...)\<close>\<close>

definition insert_company_row :: "env \<Rightarrow> company_row \<Rightarrow> world \<Rightarrow> (js_error + unit) \<times> world" where
  "insert_company_row e row =
     pool_query e (InsertCompanyRow row)
       (\<lambda>w. ((), w\<lparr>session_company_data := session_company_data w @ [row]\<rparr>))"

text \<open>
  The SELECT of \<open>getConsolidatedData\<close>:
  \<open>WHERE session_id = $1 AND tenant_id = ANY($2) AND expires_at > NOW()\<close>.
\<close>

definition live_rows :: "int \<Rightarrow> string \<Rightarrow> string list \<Rightarrow> company_row list \<Rightarrow> company_row list" where
  "live_rows now sid ids tab =
     filter (\<lambda>c. session_id c = sid \<and> tenant_id c \<in> set ids \<and> now < expires_at c) tab"

definition select_live_rows ::
  "env \<Rightarrow> int \<Rightarrow> string \<Rightarrow> string list \<Rightarrow> world \<Rightarrow> (js_error + company_row list) \<times> world" where
  "select_live_rows e now sid ids =
     pool_query e (SelectLiveRows sid ids)
       (\<lambda>w. (live_rows now sid ids (session_company_data w), w))"

section \<open>Selection store\<close>

text \<open>
  \<open>setDisplaySelection\<close>: one upsert keyed by the session; \<open>currentView\<close> defaults to
  \<open>overview\<close> when the caller leaves it out. \<open>now\<close> is the store's clock at the call.
\<close>

definition setDisplaySelection ::
  "env \<Rightarrow> int \<Rightarrow> string \<Rightarrow> string list \<Rightarrow> string option \<Rightarrow> world \<Rightarrow> (js_error + unit) \<times> world" where
  "setDisplaySelection e now sessionId selectedTenantIds currentView =
     (let view = (case currentView of None \<Rightarrow> ''overview'' | Some v \<Rightarrow> v) in
      pool_query e (UpsertSelection sessionId selectedTenantIds view)
        (\<lambda>w. ((), w\<lparr>user_display_selection :=
                        (user_display_selection w)
                          (sessionId \<mapsto> \<lparr>selected_tenant_ids = selectedTenantIds,
                                         current_view = view, last_updated = now\<rparr>)\<rparr>)))"

text \<open>
  \<open>getDisplaySelection\<close>: the two selection columns of the session's row, or the default
  \<open>{selected_tenant_ids: [], current_view: "overview"}\<close> when there is no row.
\<close>

definition getDisplaySelection :: "env \<Rightarrow> string \<Rightarrow> world \<Rightarrow> (js_error + selection) \<times> world" where
  "getDisplaySelection e sessionId =
     pool_query e (SelectSelection sessionId)
       (\<lambda>w. ((case user_display_selection w sessionId of
                  Some r \<Rightarrow> \<lparr>selected_tenant_ids = selected_tenant_ids r,
                             current_view = current_view r\<rparr>
                | None \<Rightarrow> \<lparr>selected_tenant_ids = [], current_view = ''overview''\<rparr>), w))"

section \<open>Reductions of the two reports\<close>

subsection \<open>loadTrialBalanceTotals\<close>

record tb_totals =
  totalAssets :: js_number
  totalLiabilities :: js_number
  totalEquity :: js_number
  isBalanced :: bool

text \<open>
  The body of the inner \<open>forEach\<close>: the three running totals are the state; \<open>return\<close>
  leaves the callback for a row whose amount is zero.
\<close>

definition tb_row ::
  "string \<Rightarrow> js_number \<times> js_number \<times> js_number \<Rightarrow> report_row
     \<Rightarrow> js_number \<times> js_number \<times> js_number" where
  "tb_row sectionTitle acc row =
     (case acc of (a, l, q) \<Rightarrow>
        (case cells row of
           None \<Rightarrow> acc
         | Some cs \<Rightarrow>
             if rowType row = Some ''Row'' \<and> 2 \<le> length cs then
               (let amount = cell_amount cs 1 in
                if amount = Finite 0 then acc
                else if str_includes sectionTitle ''asset'' then (js_add a amount, l, q)
                else if str_includes sectionTitle ''liabilit'' then (a, js_add l (js_abs amount), q)
                else if str_includes sectionTitle ''equity'' then (a, l, js_add q amount)
                else acc)
             else acc))"

text \<open>The body of the outer \<open>forEach\<close>.\<close>

definition tb_section ::
  "js_number \<times> js_number \<times> js_number \<Rightarrow> report_row \<Rightarrow> js_number \<times> js_number \<times> js_number" where
  "tb_section acc section =
     (case rows section of
        None \<Rightarrow> acc
      | Some rs \<Rightarrow>
          (case title section of
             None \<Rightarrow> acc
           | Some t \<Rightarrow>
               if rowType section = Some ''Section'' \<and> truthy_string t
               then foldl (tb_row (toLowerCase t)) acc rs
               else acc))"

definition trial_balance_totals :: "report_row list \<Rightarrow> tb_totals" where
  "trial_balance_totals balanceSheetRows =
     (case foldl tb_section (Finite 0, Finite 0, Finite 0) balanceSheetRows of
        (a, l, q) \<Rightarrow>
          \<lparr>totalAssets = a, totalLiabilities = l, totalEquity = q,
           isBalanced = js_less (js_abs (js_sub a (js_add l q))) (Finite 1)\<rparr>)"

definition loadTrialBalanceTotals :: "env \<Rightarrow> string \<Rightarrow> js_error + tb_totals" where
  "loadTrialBalanceTotals e tenantId =
     (case getReportBalanceSheet e tenantId of
        Inl err \<Rightarrow> Inl err
      | Inr r \<Rightarrow> Inr (trial_balance_totals (first_report_rows r)))"

subsection \<open>loadCashPosition\<close>

record cash_position =
  totalCash :: js_number

text \<open>The bodies of the two \<open>forEach\<close> callbacks; \<open>acc\<close> is the running \<open>totalCash\<close>.\<close>

definition cash_bank_row :: "js_number \<Rightarrow> report_row \<Rightarrow> js_number" where
  "cash_bank_row acc bankRow =
     (case cells bankRow of
        None \<Rightarrow> acc
      | Some cs \<Rightarrow>
          if rowType bankRow = Some ''Row'' \<and> 5 \<le> length cs then
            (let accountName = (case cell_value (cs ! 0) of None \<Rightarrow> [] | Some v \<Rightarrow> v) in
             if truthy_string accountName \<and> \<not> str_includes (toLowerCase accountName) ''total''
             then js_add acc (cell_amount cs 4)
             else acc)
          else acc)"

definition cash_section :: "js_number \<Rightarrow> report_row \<Rightarrow> js_number" where
  "cash_section acc row =
     (case rows row of
        None \<Rightarrow> acc
      | Some rs \<Rightarrow> if rowType row = Some ''Section'' then foldl cash_bank_row acc rs else acc)"

definition cash_total :: "report_row list \<Rightarrow> cash_position" where
  "cash_total bankSummaryRows = \<lparr>totalCash = foldl cash_section (Finite 0) bankSummaryRows\<rparr>"

definition loadCashPosition :: "env \<Rightarrow> string \<Rightarrow> js_error + cash_position" where
  "loadCashPosition e tenantId =
     (case getReportBankSummary e tenantId of
        Inl err \<Rightarrow> Inl err
      | Inr r \<Rightarrow> Inr (cash_total (first_report_rows r)))"

section \<open>Company loader\<close>

text \<open>
  What the loader returns: \<open>{success, tenantId, data}\<close> or \<open>{success, tenantId, error}\<close>
  (\<open>lr_tenantId\<close> is the property \<open>tenantId\<close>).
\<close>

record load_result =
  success :: bool
  lr_tenantId :: string
  data :: "company_row option"
  error :: "string option"

text \<open>\<open>promise.catch(() => null)\<close>\<close>

definition catch_null :: "js_error + 'a \<Rightarrow> 'a option" where
  "catch_null r = (case r of Inl _ \<Rightarrow> None | Inr v \<Rightarrow> Some v)"

text \<open>\<open>x || 0\<close> on a number.\<close>

definition or_zero :: "js_number \<Rightarrow> js_number" where
  "or_zero n = (if truthy_number n then n else Finite 0)"

text \<open>The record \<open>companyData\<close> built from the two reductions.\<close>

definition company_data ::
  "string \<Rightarrow> string \<Rightarrow> token \<Rightarrow> tb_totals option \<Rightarrow> cash_position option \<Rightarrow> int \<Rightarrow> company_row" where
  "company_data sessionId tenantId tokenData trialBalanceData cashData expiresAt =
     \<lparr>session_id = sessionId,
      tenant_id = tenantId,
      tenant_name = tenantName tokenData,
      total_assets =
        Some (case trialBalanceData of None \<Rightarrow> Finite 0 | Some t \<Rightarrow> or_zero (totalAssets t)),
      total_liabilities =
        Some (js_abs (case trialBalanceData of None \<Rightarrow> Finite 0
                      | Some t \<Rightarrow> or_zero (totalLiabilities t))),
      total_equity =
        Some (case trialBalanceData of None \<Rightarrow> Finite 0 | Some t \<Rightarrow> or_zero (totalEquity t)),
      total_cash = Some (case cashData of None \<Rightarrow> Finite 0 | Some c \<Rightarrow> or_zero (totalCash c)),
      total_revenue = Some (Finite 0),
      total_expenses = Some (Finite 0),
      net_profit = Some (Finite 0),
      is_balanced = Some (case trialBalanceData of None \<Rightarrow> False | Some t \<Rightarrow> isBalanced t),
      has_data = Some (trialBalanceData \<noteq> None \<or> cashData \<noteq> None),
      load_error = None,
      expires_at = expiresAt\<rparr>"

text \<open>
  The row of the INSERT in the \<open>catch\<close> handler: six columns are given, the others are
  left to the table.
\<close>

definition error_row :: "string \<Rightarrow> string \<Rightarrow> string \<Rightarrow> int \<Rightarrow> company_row" where
  "error_row sessionId tenantId msg expiresAt =
     \<lparr>session_id = sessionId,
      tenant_id = tenantId,
      tenant_name = ''Unknown Company'',
      total_assets = None, total_liabilities = None, total_equity = None,
      total_cash = None, total_revenue = None, total_expenses = None, net_profit = None,
      is_balanced = None,
      has_data = Some False,
      load_error = Some msg,
      expires_at = expiresAt\<rparr>"

text \<open>The \<open>try\<close> block of \<open>loadSingleCompanyData\<close>: \<open>Inl\<close> is the exception it leaves with.\<close>

definition load_try ::
  "env \<Rightarrow> string \<Rightarrow> string \<Rightarrow> int \<Rightarrow> world \<Rightarrow> (js_error + load_result) \<times> world" where
  "load_try e sessionId tenantId expiresAt w =
     (case getXeroToken e tenantId of
        Inl err \<Rightarrow> (Inl err, w)
      | Inr None \<Rightarrow> (Inl (Error (''No token found for tenant '' @ tenantId)), w)
      | Inr (Some tokenData) \<Rightarrow>
          (case setTokenSet e tokenData of
             Some err \<Rightarrow> (Inl err, w)
           | None \<Rightarrow>
               (let trialBalanceData = catch_null (loadTrialBalanceTotals e tenantId);
                    cashData = catch_null (loadCashPosition e tenantId);
                    companyData = company_data sessionId tenantId tokenData
                                    trialBalanceData cashData expiresAt
                in case insert_company_row e companyData w of
                     (Inl err, w1) \<Rightarrow> (Inl err, w1)
                   | (Inr _, w1) \<Rightarrow>
                       (Inr \<lparr>success = True, lr_tenantId = tenantId,
                             data = Some companyData, error = None\<rparr>, w1))))"

definition loadSingleCompanyData ::
  "env \<Rightarrow> string \<Rightarrow> string \<Rightarrow> int \<Rightarrow> world \<Rightarrow> (js_error + load_result) \<times> world" where
  "loadSingleCompanyData e sessionId tenantId expiresAt w =
     (case load_try e sessionId tenantId expiresAt w of
        (Inr r, w1) \<Rightarrow> (Inr r, w1)
      | (Inl err, w1) \<Rightarrow>
          (case insert_company_row e (error_row sessionId tenantId (message err) expiresAt) w1 of
             (Inl err2, w2) \<Rightarrow> (Inl err2, w2)
           | (Inr _, w2) \<Rightarrow>
               (Inr \<lparr>success = False, lr_tenantId = tenantId,
                     data = None, error = Some (message err)\<rparr>, w2)))"

section \<open>Session loader\<close>

definition sessionTTL :: int where
  "sessionTTL = 30 * 60 * 1000"

text \<open>
  The fan-out \<open>connectedTenantIds.map(...)\<close> up to the moment \<open>await Promise.all\<close>
  settles. The loaders run one after the other in the order of the list, which is one
  of the schedules of the concurrent loaders. \<open>Promise.all\<close> is rejected as soon as one
  loader is rejected: the outcomes end with that rejection, and the loaders after it in
  the list, still in flight at that moment, have sent no statement yet.
\<close>

fun load_all ::
  "env \<Rightarrow> string \<Rightarrow> int \<Rightarrow> string list \<Rightarrow> world \<Rightarrow> (js_error + load_result) list \<times> world" where
  "load_all e sessionId expiresAt [] w = ([], w)"
| "load_all e sessionId expiresAt (t # ts) w =
     (case loadSingleCompanyData e sessionId t expiresAt w of
        (Inl err, w1) \<Rightarrow> ([Inl err], w1)
      | (Inr r, w1) \<Rightarrow>
          (case load_all e sessionId expiresAt ts w1 of (rs, w2) \<Rightarrow> (Inr r # rs, w2)))"

text \<open>
  \<open>Promise.all\<close>: the list of the values when every promise is fulfilled, otherwise the
  error of the promise that was rejected.
\<close>

fun promise_all :: "(js_error + 'a) list \<Rightarrow> js_error + 'a list" where
  "promise_all [] = Inr []"
| "promise_all (Inl err # _) = Inl err"
| "promise_all (Inr v # rs) = (case promise_all rs of Inl err \<Rightarrow> Inl err | Inr vs \<Rightarrow> Inr (v # vs))"

text \<open>
  What \<open>loadSessionData\<close> returns (\<open>sr_sessionId\<close> and \<open>sr_expiresAt\<close> are the properties
  \<open>sessionId\<close> and \<open>expiresAt\<close>; the latter is kept as a time stamp, not printed).
\<close>

record session_result =
  sr_sessionId :: string
  totalCompanies :: nat
  successfulCompanies :: nat
  sr_expiresAt :: int

text \<open>\<open>now\<close> is the clock at the call.\<close>

definition loadSessionData ::
  "env \<Rightarrow> int \<Rightarrow> string \<Rightarrow> string list \<Rightarrow> world \<Rightarrow> (js_error + session_result) \<times> world" where
  "loadSessionData e now sessionId connectedTenantIds w =
     (let expiresAt = now + sessionTTL in
      case delete_session_rows e sessionId w of
        (Inl err, w1) \<Rightarrow> (Inl err, w1)
      | (Inr _, w1) \<Rightarrow>
          (case load_all e sessionId expiresAt connectedTenantIds w1 of
             (loadPromises, w2) \<Rightarrow>
               (case promise_all loadPromises of
                  Inl err \<Rightarrow> (Inl err, w2)
                | Inr results \<Rightarrow>
                    (case setDisplaySelection e now sessionId connectedTenantIds
                            (Some ''overview'') w2 of
                       (Inl err, w3) \<Rightarrow> (Inl err, w3)
                     | (Inr _, w3) \<Rightarrow>
                         (Inr \<lparr>sr_sessionId = sessionId,
                               totalCompanies = length connectedTenantIds,
                               successfulCompanies = length (filter success results),
                               sr_expiresAt = expiresAt\<rparr>, w3)))))"

section \<open>Consolidator\<close>

text \<open>
  The consolidated view. The properties of \<open>totals\<close> carry the prefix \<open>tot_\<close>, those of
  an entry of \<open>companies\<close> the prefix \<open>co_\<close>, and \<open>sm_totalCompanies\<close> is the property
  \<open>totalCompanies\<close> of \<open>summary\<close>.
\<close>

record totals =
  tot_totalAssets :: js_number
  tot_totalLiabilities :: js_number
  tot_totalEquity :: js_number
  tot_totalCash :: js_number
  tot_totalRevenue :: js_number
  tot_totalExpenses :: js_number
  tot_totalNetProfit :: js_number

record company_view =
  co_tenantId :: string
  co_tenantName :: string
  co_totalAssets :: js_number
  co_totalLiabilities :: js_number
  co_totalEquity :: js_number
  co_totalCash :: js_number
  co_isBalanced :: "bool option"
  co_hasData :: "bool option"
  co_error :: "string option"

record summary =
  sm_totalCompanies :: nat
  balancedCompanies :: nat
  companiesWithData :: nat
  companiesWithErrors :: nat

record consolidated =
  totals :: totals
  companies :: "company_view list"
  summary :: summary

text \<open>\<open>rows.reduce((sum, c) => sum + parseFloat(c.field || 0), 0)\<close>\<close>

definition reduce_sum :: "(company_row \<Rightarrow> js_number option) \<Rightarrow> company_row list \<Rightarrow> js_number" where
  "reduce_sum field cs = foldl (\<lambda>sum c. js_add sum (number_or_zero (field c))) (Finite 0) cs"

text \<open>Truthiness of a nullable boolean and of a nullable string.\<close>

definition truthy_bool :: "bool option \<Rightarrow> bool" where
  "truthy_bool b = (b = Some True)"

definition truthy_text :: "string option \<Rightarrow> bool" where
  "truthy_text s = (case s of None \<Rightarrow> False | Some m \<Rightarrow> truthy_string m)"

definition company_entry :: "company_row \<Rightarrow> company_view" where
  "company_entry c =
     \<lparr>co_tenantId = tenant_id c,
      co_tenantName = tenant_name c,
      co_totalAssets = number_or_zero (total_assets c),
      co_totalLiabilities = number_or_zero (total_liabilities c),
      co_totalEquity = number_or_zero (total_equity c),
      co_totalCash = number_or_zero (total_cash c),
      co_isBalanced = is_balanced c,
      co_hasData = has_data c,
      co_error = load_error c\<rparr>"

definition consolidate :: "company_row list \<Rightarrow> consolidated" where
  "consolidate cs =
     \<lparr>totals =
        \<lparr>tot_totalAssets = reduce_sum total_assets cs,
         tot_totalLiabilities = reduce_sum total_liabilities cs,
         tot_totalEquity = reduce_sum total_equity cs,
         tot_totalCash = reduce_sum total_cash cs,
         tot_totalRevenue = reduce_sum total_revenue cs,
         tot_totalExpenses = reduce_sum total_expenses cs,
         tot_totalNetProfit = reduce_sum net_profit cs\<rparr>,
      companies = map company_entry cs,
      summary =
        \<lparr>sm_totalCompanies = length cs,
         balancedCompanies = length (filter (\<lambda>c. truthy_bool (is_balanced c)) cs),
         companiesWithData = length (filter (\<lambda>c. truthy_bool (has_data c)) cs),
         companiesWithErrors = length (filter (\<lambda>c. truthy_text (load_error c)) cs)\<rparr>\<rparr>"

text \<open>
  \<open>getConsolidatedData\<close> returns the view or an object \<open>{error: message}\<close>; an omitted
  selection is \<open>None\<close>. \<open>now\<close> is the store's clock at the SELECT.
\<close>

datatype consolidate_result = ErrorResult string | Consolidated consolidated

definition getConsolidatedData ::
  "env \<Rightarrow> int \<Rightarrow> string \<Rightarrow> string list option \<Rightarrow> world
     \<Rightarrow> (js_error + consolidate_result) \<times> world" where
  "getConsolidatedData e now sessionId selectedTenantIds w =
     (case (case selectedTenantIds of
              Some ids \<Rightarrow> (Inr ids, w)
            | None \<Rightarrow>
                (case getDisplaySelection e sessionId w of
                   (Inl err, w1) \<Rightarrow> (Inl err, w1)
                 | (Inr sel, w1) \<Rightarrow> (Inr (selected_tenant_ids sel), w1))) of
        (Inl err, w1) \<Rightarrow> (Inl err, w1)
      | (Inr ids, w1) \<Rightarrow>
          if ids = [] then (Inr (ErrorResult ''No companies selected''), w1)
          else
            (case select_live_rows e now sessionId ids w1 of
               (Inl err, w2) \<Rightarrow> (Inl err, w2)
             | (Inr cs, w2) \<Rightarrow>
                 if cs = [] then
                   (Inr (ErrorResult ''No session data found or session expired''), w2)
                 else (Inr (Consolidated (consolidate cs)), w2)))"

section \<open>Freshness check\<close>

record freshness =
  hasData :: bool
  companiesCount :: nat
  earliest_expiry :: "int option"

definition hasValidSessionData :: "env \<Rightarrow> int \<Rightarrow> string \<Rightarrow> world \<Rightarrow> (js_error + freshness) \<times> world" where
  "hasValidSessionData e now sessionId =
     pool_query e (CountLiveRows sessionId)
       (\<lambda>w. (let live = filter (\<lambda>c. session_id c = sessionId \<and> now < expires_at c)
                            (session_company_data w)
              in \<lparr>hasData = 0 < length live,
                  companiesCount = length live,
                  earliest_expiry =
                    (if live = [] then None else Some (Min (set (map expires_at live))))\<rparr>, w))"

section \<open>Notions used to state the properties\<close>

subsection \<open>The sum of a list of numbers\<close>

text \<open>
  The sum of a list of JavaScript numbers: starting from \<open>0\<close>, the elements are added
  from left to right, every addition rounded to a double.
\<close>

definition js_sum :: "js_number list \<Rightarrow> js_number" where
  "js_sum xs = foldl js_add (Finite 0) xs"

subsection \<open>The balance sheet reduction, as the specification words it\<close>

text \<open>
  A section is classified by its title, compared without regard to case: the first of
  \<open>asset\<close>, \<open>liabilit\<close>, \<open>equity\<close> that occurs in it decides.
\<close>

datatype section_class = AssetSection | LiabilitySection | EquitySection

definition classify_title :: "string \<Rightarrow> section_class option" where
  "classify_title t =
     (if str_includes (toLowerCase t) ''asset'' then Some AssetSection
      else if str_includes (toLowerCase t) ''liabilit'' then Some LiabilitySection
      else if str_includes (toLowerCase t) ''equity'' then Some EquitySection
      else None)"

text \<open>
  The rows that carry a value (type \<open>Row\<close>, at least two cells), their amount (the
  second cell), and the amounts other than zero of a list of rows.
\<close>

definition is_value_row :: "report_row \<Rightarrow> bool" where
  "is_value_row r =
     (rowType r = Some ''Row'' \<and> (case cells r of None \<Rightarrow> False | Some cs \<Rightarrow> 2 \<le> length cs))"

definition row_amount :: "report_row \<Rightarrow> js_number" where
  "row_amount r = (case cells r of None \<Rightarrow> Finite 0 | Some cs \<Rightarrow> cell_amount cs 1)"

definition nonzero_amounts :: "report_row list \<Rightarrow> js_number list" where
  "nonzero_amounts rs = filter (\<lambda>x. x \<noteq> Finite 0) (map row_amount (filter is_value_row rs))"

text \<open>The amounts a labelled section of a given class contributes, and those of a report.\<close>

definition section_amounts :: "section_class \<Rightarrow> report_row \<Rightarrow> js_number list" where
  "section_amounts cls s =
     (case rows s of
        None \<Rightarrow> []
      | Some rs \<Rightarrow>
          (case title s of
             None \<Rightarrow> []
           | Some t \<Rightarrow>
               if rowType s = Some ''Section'' \<and> t \<noteq> [] \<and> classify_title t = Some cls
               then nonzero_amounts rs else []))"

definition class_amounts :: "section_class \<Rightarrow> report_row list \<Rightarrow> js_number list" where
  "class_amounts cls bs = concat (map (section_amounts cls) bs)"

subsection \<open>The bank summary reduction, as the specification words it\<close>

text \<open>
  A bank row is a \<open>Row\<close> with at least five cells; its label is the value of its first
  cell (empty when there is none) and its amount the fifth cell.
\<close>

definition is_bank_row :: "report_row \<Rightarrow> bool" where
  "is_bank_row r =
     (rowType r = Some ''Row'' \<and> (case cells r of None \<Rightarrow> False | Some cs \<Rightarrow> 5 \<le> length cs))"

definition bank_label :: "report_row \<Rightarrow> string" where
  "bank_label r =
     (case cells r of
        None \<Rightarrow> []
      | Some cs \<Rightarrow>
          (case cs of
             [] \<Rightarrow> []
           | c # _ \<Rightarrow> (case cell_value c of None \<Rightarrow> [] | Some v \<Rightarrow> v)))"

definition bank_amount :: "report_row \<Rightarrow> js_number" where
  "bank_amount r = (case cells r of None \<Rightarrow> Finite 0 | Some cs \<Rightarrow> cell_amount cs 4)"

definition is_total_label :: "string \<Rightarrow> bool" where
  "is_total_label s = str_includes (toLowerCase s) ''total''"

text \<open>
  The rows that count: once leaving out only the rows labelled as totals, once leaving
  out the rows without a label as well.
\<close>

definition rows_but_totals :: "report_row list \<Rightarrow> report_row list" where
  "rows_but_totals rs = filter (\<lambda>r. is_bank_row r \<and> \<not> is_total_label (bank_label r)) rs"

definition labelled_rows_but_totals :: "report_row list \<Rightarrow> report_row list" where
  "labelled_rows_but_totals rs =
     filter (\<lambda>r. is_bank_row r \<and> bank_label r \<noteq> [] \<and> \<not> is_total_label (bank_label r)) rs"

text \<open>The amounts of the chosen rows of every \<open>Section\<close> of a report.\<close>

definition cash_amounts ::
  "(report_row list \<Rightarrow> report_row list) \<Rightarrow> report_row list \<Rightarrow> js_number list" where
  "cash_amounts pick bs =
     concat (map (\<lambda>s. case rows s of
                         None \<Rightarrow> []
                       | Some rs \<Rightarrow>
                           if rowType s = Some ''Section'' then map bank_amount (pick rs)
                           else []) bs)"

subsection \<open>What a loader leaves in the store\<close>

text \<open>
  The row behind a result of the loader: the data of a success, the error row of a
  failure.
\<close>

definition row_of_result :: "string \<Rightarrow> int \<Rightarrow> load_result \<Rightarrow> company_row" where
  "row_of_result sessionId expiresAt r =
     (case data r of
        Some row \<Rightarrow> row
      | None \<Rightarrow>
          error_row sessionId (lr_tenantId r) (case error r of None \<Rightarrow> [] | Some m \<Rightarrow> m) expiresAt)"

text \<open>The rows of a session in the table, and an INSERT of a row of a session.\<close>

definition session_rows :: "string \<Rightarrow> world \<Rightarrow> company_row list" where
  "session_rows sessionId w = filter (\<lambda>c. session_id c = sessionId) (session_company_data w)"

definition is_insert_for :: "string \<Rightarrow> query \<Rightarrow> bool" where
  "is_insert_for sessionId q =
     (case q of InsertCompanyRow row \<Rightarrow> session_id row = sessionId | _ \<Rightarrow> False)"

text \<open>
  The store after the loaders of a list of companies have run, one after the other,
  each to its end.
\<close>

definition world_after :: "env \<Rightarrow> string \<Rightarrow> int \<Rightarrow> string list \<Rightarrow> world \<Rightarrow> world" where
  "world_after e sessionId expiresAt ts w =
     foldl (\<lambda>w t. snd (loadSingleCompanyData e sessionId t expiresAt w)) w ts"

text \<open>
  A company whose credential is found and applied: the token provider returns one and
  applying it does not throw.
\<close>

definition credential_applies :: "env \<Rightarrow> string \<Rightarrow> bool" where
  "credential_applies e tenant =
     (case getXeroToken e tenant of
        Inr (Some tok) \<Rightarrow> setTokenSet e tok = None
      | _ \<Rightarrow> False)"

subsection \<open>The selection a consolidation works on\<close>

text \<open>
  The selection passed by the caller, or else the stored one, or else the empty one when
  the session has no stored selection.
\<close>

definition resolved_selection :: "string list option \<Rightarrow> string \<Rightarrow> world \<Rightarrow> string list" where
  "resolved_selection sel sessionId w =
     (case sel of
        Some ids \<Rightarrow> ids
      | None \<Rightarrow>
          (case user_display_selection w sessionId of
             None \<Rightarrow> []
           | Some r \<Rightarrow> selected_tenant_ids r))"

text \<open>
  What \<open>getConsolidatedData\<close> is to return for a resolved selection and the live rows
  it selects.
\<close>

definition consolidation_of :: "string list \<Rightarrow> company_row list \<Rightarrow> consolidate_result" where
  "consolidation_of ids cs =
     (if ids = [] then ErrorResult ''No companies selected''
      else if cs = [] then ErrorResult ''No session data found or session expired''
      else Consolidated (consolidate cs))"

text \<open>The value of a financial field, a missing or non-numeric one counting as \<open>0\<close>.\<close>

fun field_value :: "js_number option \<Rightarrow> js_number" where
  "field_value None = Finite 0"
| "field_value (Some NaN) = Finite 0"
| "field_value (Some n) = n"

subsection \<open>Concrete stores and collaborators\<close>

text \<open>An empty store, and collaborators that know no company and never fail a statement.\<close>

definition empty_world :: world where
  "empty_world =
     \<lparr>session_company_data = [], user_display_selection = (\<lambda>s. None), query_log = []\<rparr>"

definition quiet_env :: env where
  "quiet_env =
     \<lparr>getXeroToken = (\<lambda>t. Inr None),
      setTokenSet = (\<lambda>k. None),
      getReportBalanceSheet = (\<lambda>t. Inl (Error ''unavailable'')),
      getReportBankSummary = (\<lambda>t. Inl (Error ''unavailable'')),
      pool_fault = (\<lambda>n q. None)\<rparr>"

text \<open>
  Three balance sheets. In the first, assets exceed liabilities plus equity by exactly
  \<open>1\<close>; in the second by \<open>0.999999\<close>. Both hold a summary line, a row whose amount is
  zero and a section without a title. In the third the assets are \<open>1.15\<close> and the
  liabilities \<open>0.15\<close>: the doubles differ by \<open>0.9999999999999999\<close>.
\<close>

definition value_row :: "string \<Rightarrow> string \<Rightarrow> report_row" where
  "value_row label amount =
     ReportRow (Some ''Row'') None (Some [Cell (Some label), Cell (Some amount)]) None"

definition balance_sheet :: "string \<Rightarrow> response" where
  "balance_sheet bank =
     Response (Some [Report (Some
       [ReportRow (Some ''Header'') None (Some [Cell (Some ''''), Cell (Some ''30 Jun'')]) None,
        ReportRow (Some ''Section'') (Some ''ASSETS'') None
          (Some [value_row ''Bank'' bank, value_row ''Petty cash'' ''0.00'',
                 ReportRow (Some ''SummaryRow'') None
                   (Some [Cell (Some ''Total Assets''), Cell (Some ''500'')]) None]),
        ReportRow (Some ''Section'') (Some ''Current Liabilities'') None
          (Some [value_row ''Loan'' ''-60'']),
        ReportRow (Some ''Section'') (Some ''Equity'') None
          (Some [value_row ''Capital'' ''40'']),
        ReportRow (Some ''Section'') None None
          (Some [value_row ''Unlabelled'' ''7''])])])"

definition rounded_sheet :: response where
  "rounded_sheet =
     Response (Some [Report (Some
       [ReportRow (Some ''Section'') (Some ''Assets'') None (Some [value_row ''Bank'' ''1.15'']),
        ReportRow (Some ''Section'') (Some ''Liabilities'') None
          (Some [value_row ''Loan'' ''0.15''])])])"

definition books_env :: env where
  "books_env =
     \<lparr>getXeroToken = (\<lambda>t. Inr (Some \<lparr>tenantName = ''Acme''\<rparr>)),
      setTokenSet = (\<lambda>k. None),
      getReportBalanceSheet =
        (\<lambda>t. if t = ''t1'' then Inr (balance_sheet ''101'')
             else if t = ''t3'' then Inr rounded_sheet
             else Inr (balance_sheet ''100.999999'')),
      getReportBankSummary = (\<lambda>t. Inl (Error ''unavailable'')),
      pool_fault = (\<lambda>n q. None)\<rparr>"

text \<open>
  A bank summary with one account, one row without a label and one line of totals.
\<close>

definition bank_row :: "string \<Rightarrow> string \<Rightarrow> report_row" where
  "bank_row label closing =
     ReportRow (Some ''Row'') None
       (Some [Cell (Some label), Cell (Some ''0.00''), Cell (Some ''0.00''),
              Cell (Some ''0.00''), Cell (Some closing)]) None"

definition bank_summary :: response where
  "bank_summary =
     Response (Some [Report (Some
       [ReportRow (Some ''Section'') None None
          (Some [bank_row ''Business Account'' ''250.50'',
                 bank_row '''' ''100'',
                 bank_row ''Total Bank'' ''350.50''])])])"

text \<open>A bank summary with two accounts, holding \<open>0.1\<close> and \<open>0.2\<close>.\<close>

definition decimal_summary :: response where
  "decimal_summary =
     Response (Some [Report (Some
       [ReportRow (Some ''Section'') None None
          (Some [bank_row ''Till'' ''0.1'', bank_row ''Savings'' ''0.2''])])])"

definition bank_env :: env where
  "bank_env =
     \<lparr>getXeroToken = (\<lambda>t. Inr (Some \<lparr>tenantName = ''Acme''\<rparr>)),
      setTokenSet = (\<lambda>k. None),
      getReportBalanceSheet = (\<lambda>t. Inl (Error ''unavailable'')),
      getReportBankSummary = (\<lambda>t. if t = ''t2'' then Inr decimal_summary else Inr bank_summary),
      pool_fault = (\<lambda>n q. None)\<rparr>"

text \<open>
  Three companies of which the second has no credential; every report is available
  and the store accepts every statement.
\<close>

definition group_env :: env where
  "group_env =
     \<lparr>getXeroToken =
        (\<lambda>t. if t = ''t2'' then Inr None else Inr (Some \<lparr>tenantName = ''Company '' @ t\<rparr>)),
      setTokenSet = (\<lambda>k. None),
      getReportBalanceSheet = (\<lambda>t. Inr (balance_sheet ''100'')),
      getReportBankSummary = (\<lambda>t. Inr bank_summary),
      pool_fault = (\<lambda>n q. None)\<rparr>"

text \<open>A store that holds a row of an earlier load of session \<open>s1\<close> and a row of another session.\<close>

definition used_world :: world where
  "used_world =
     \<lparr>session_company_data =
        [error_row ''s1'' ''t9'' ''stale'' 5000000, error_row ''s2'' ''t1'' ''other'' 5000000],
      user_display_selection = (\<lambda>s. None),
      query_log = []\<rparr>"

text \<open>
  A token provider that throws an error with an empty message, and the store after
  one load of session \<open>s1\<close> with it.
\<close>

definition mute_env :: env where
  "mute_env =
     \<lparr>getXeroToken = (\<lambda>t. Inl (Error [])),
      setTokenSet = (\<lambda>k. None),
      getReportBalanceSheet = (\<lambda>t. Inl (Error ''unavailable'')),
      getReportBankSummary = (\<lambda>t. Inl (Error ''unavailable'')),
      pool_fault = (\<lambda>n q. None)\<rparr>"

definition mute_world :: world where
  "mute_world = snd (loadSessionData mute_env 0 ''s1'' [''t1''] empty_world)"

text \<open>Two rows whose assets are the doubles \<open>0.1\<close> and \<open>0.2\<close>.\<close>

definition decimal_rows :: "company_row list" where
  "decimal_rows =
     [(error_row ''s1'' ''t1'' [] 5000000)\<lparr>total_assets := Some (parseFloat ''0.1'')\<rparr>,
      (error_row ''s1'' ''t2'' [] 5000000)\<lparr>total_assets := Some (parseFloat ''0.2'')\<rparr>]"

text \<open>
  A company whose credential is known while both report fetches fail; one whose
  credential cannot be applied; and one for which the store rejects the first statement
  it receives and accepts the following ones.
\<close>

definition dark_env :: env where
  "dark_env =
     \<lparr>getXeroToken = (\<lambda>t. Inr (Some \<lparr>tenantName = ''Acme''\<rparr>)),
      setTokenSet = (\<lambda>k. None),
      getReportBalanceSheet = (\<lambda>t. Inl (Error ''unavailable'')),
      getReportBankSummary = (\<lambda>t. Inl (Error ''unavailable'')),
      pool_fault = (\<lambda>n q. None)\<rparr>"

definition expired_env :: env where
  "expired_env =
     \<lparr>getXeroToken = (\<lambda>t. Inr (Some \<lparr>tenantName = ''Acme''\<rparr>)),
      setTokenSet = (\<lambda>k. Some (Error ''token expired'')),
      getReportBalanceSheet = (\<lambda>t. Inr (balance_sheet ''100'')),
      getReportBankSummary = (\<lambda>t. Inr bank_summary),
      pool_fault = (\<lambda>n q. None)\<rparr>"

definition flaky_env :: env where
  "flaky_env =
     \<lparr>getXeroToken = (\<lambda>t. Inr (Some \<lparr>tenantName = ''Acme''\<rparr>)),
      setTokenSet = (\<lambda>k. None),
      getReportBalanceSheet = (\<lambda>t. Inl (Error ''unavailable'')),
      getReportBankSummary = (\<lambda>t. Inl (Error ''unavailable'')),
      pool_fault = (\<lambda>n q. if n = 0 then Some (Error ''value out of range'') else None)\<rparr>"

text \<open>
  Two companies with credentials behind a store that rejects every row of company
  \<open>t1\<close> and accepts every other statement.
\<close>

definition locked_env :: env where
  "locked_env =
     \<lparr>getXeroToken = (\<lambda>t. Inr (Some \<lparr>tenantName = ''Acme''\<rparr>)),
      setTokenSet = (\<lambda>k. None),
      getReportBalanceSheet = (\<lambda>t. Inl (Error ''unavailable'')),
      getReportBankSummary = (\<lambda>t. Inl (Error ''unavailable'')),
      pool_fault =
        (\<lambda>n q. case q of
                  InsertCompanyRow row \<Rightarrow>
                    if tenant_id row = ''t1'' then Some (Error ''row rejected'') else None
                | _ \<Rightarrow> None)\<rparr>"

section \<open>Evaluation of the numbers\<close>

lemma floor_numeral_div: "\<lfloor>(numeral a :: rat) / numeral b\<rfloor> = numeral a div numeral b"
  using floor_divide_of_int_eq [of "numeral a" "numeral b", where ?'a = rat] by simp

lemma ceiling_numeral_div:
  "\<lceil>(numeral a :: rat) / numeral b\<rceil> = - ((- numeral a) div numeral b)"
  using floor_divide_of_int_eq [of "- numeral a" "numeral b", where ?'a = rat]
  by (simp add: ceiling_def)

lemmas double_eval =
  round_double_def overflow_def round_to_unit_def round_half_even_def ties_to_even_def
  binary_exponent_def pow2_def bit_length.simps floor_numeral_div ceiling_numeral_div

lemmas parse_eval =
  parseFloat_def unsigned_literal_def is_space_def is_digit_def digits_value_def scale10_def
  Let_def double_eval

text \<open>
  \<open>parseFloat\<close> gives the nearest double: \<open>0.1\<close> is not the rational \<open>1/10\<close>, a literal
  with more digits than a double holds is rounded, a literal below the least double
  gives \<open>0\<close>, and a no-break space before the digits is skipped.
\<close>

lemma parseFloat_rounds:
  "parseFloat ''0.1'' = Finite (3602879701896397 / 36028797018963968)
   \<and> parseFloat ''100.99999999999999999'' = Finite 101
   \<and> parseFloat ''1e-400'' = Finite 0
   \<and> parseFloat (CHR 0xA0 # ''7'') = Finite 7"
  by (simp add: parse_eval)

text \<open>A literal beyond the greatest double gives \<open>Infinity\<close>.\<close>

lemma parseFloat_overflows: "parseFloat ''1e400'' = PosInfinity"
  by (simp add: parse_eval)

text \<open>Addition is rounded: \<open>0.1 + 0.2\<close> is the double \<open>0.30000000000000004\<close>.\<close>

lemma js_add_rounds:
  "js_add (parseFloat ''0.1'') (parseFloat ''0.2'') = Finite (1351079888211149 / 4503599627370496)
   \<and> parseFloat ''0.3'' = Finite (5404319552844595 / 18014398509481984)"
  by (simp add: parse_eval)

lemma round_double_zero: "round_double 0 = Finite 0"
  by (simp add: round_double_def)

lemma js_sum_Nil: "js_sum [] = Finite 0"
  by (simp add: js_sum_def)

lemma js_sum_snoc: "js_sum (xs @ [x]) = js_add (js_sum xs) x"
  by (simp add: js_sum_def)

lemma foldl_guarded_add:
  "foldl (\<lambda>a r. if P r then js_add a (f r) else a) acc rs = foldl js_add acc (map f (filter P rs))"
  by (induction rs arbitrary: acc) simp_all

lemma foldl_sections:
  assumes "\<And>a s. h a s = foldl k a (g s)"
  shows "foldl h a bs = foldl k a (concat (map g bs))"
  by (induction bs arbitrary: a) (simp_all add: assms)

section \<open>Properties of the selection store\<close>

text \<open>
  Claim C9. When the store accepts the statements: \<open>getDisplaySelection\<close> after
  \<open>setDisplaySelection\<close> returns exactly the company identifiers and the view that were
  set; a second \<open>setDisplaySelection\<close> replaces the stored row completely (the store is
  the one a single call with the second arguments leaves); and a second call with
  identical arguments yields the same stored state: at the same clock both tables are
  the ones the first call left, and at a later clock the stored row is the one a single
  call at that clock leaves (the same identifiers and view, \<open>last_updated\<close> being one of
  the columns an upsert overwrites), which \<open>getDisplaySelection\<close> reads as the same
  selection.
\<close>

theorem selection_round_trip_and_overwrite:
  assumes "\<forall>n q. pool_fault e n q = None"
  shows
    "fst (getDisplaySelection e sid (snd (setDisplaySelection e t1 sid ids (Some v) w)))
       = Inr \<lparr>selected_tenant_ids = ids, current_view = v\<rparr>
     \<and> user_display_selection
          (snd (setDisplaySelection e t2 sid ids2 (Some v2)
                 (snd (setDisplaySelection e t1 sid ids (Some v) w))))
         = user_display_selection (snd (setDisplaySelection e t2 sid ids2 (Some v2) w))
     \<and> fst (getDisplaySelection e sid
               (snd (setDisplaySelection e t2 sid ids2 (Some v2)
                      (snd (setDisplaySelection e t1 sid ids (Some v) w)))))
         = Inr \<lparr>selected_tenant_ids = ids2, current_view = v2\<rparr>
     \<and> user_display_selection
          (snd (setDisplaySelection e t1 sid ids (Some v)
                 (snd (setDisplaySelection e t1 sid ids (Some v) w))))
         = user_display_selection (snd (setDisplaySelection e t1 sid ids (Some v) w))
     \<and> session_company_data
          (snd (setDisplaySelection e t1 sid ids (Some v)
                 (snd (setDisplaySelection e t1 sid ids (Some v) w))))
         = session_company_data (snd (setDisplaySelection e t1 sid ids (Some v) w))
     \<and> user_display_selection
          (snd (setDisplaySelection e t2 sid ids (Some v)
                 (snd (setDisplaySelection e t1 sid ids (Some v) w))))
         = user_display_selection (snd (setDisplaySelection e t2 sid ids (Some v) w))
     \<and> fst (getDisplaySelection e sid
               (snd (setDisplaySelection e t2 sid ids (Some v)
                      (snd (setDisplaySelection e t1 sid ids (Some v) w)))))
         = fst (getDisplaySelection e sid (snd (setDisplaySelection e t1 sid ids (Some v) w)))
     \<and> user_display_selection
          (snd (setDisplaySelection e t2 sid ids (Some v)
                 (snd (setDisplaySelection e t1 sid ids (Some v) w)))) sid
         = Some \<lparr>selected_tenant_ids = ids, current_view = v, last_updated = t2\<rparr>
     \<and> user_display_selection (snd (setDisplaySelection e t1 sid ids (Some v) w)) sid
         = Some \<lparr>selected_tenant_ids = ids, current_view = v, last_updated = t1\<rparr>"
  using assms
  by (simp add: setDisplaySelection_def getDisplaySelection_def pool_query_def Let_def)

theorem selection_round_trip_and_overwrite_witness:
  "fst (getDisplaySelection quiet_env ''s1''
         (snd (setDisplaySelection quiet_env 5 ''s1'' [''a'', ''b''] (Some ''cash'') empty_world)))
     = Inr \<lparr>selected_tenant_ids = [''a'', ''b''], current_view = ''cash''\<rparr>
   \<and> fst (getDisplaySelection quiet_env ''s1''
         (snd (setDisplaySelection quiet_env 9 ''s1'' [''c''] (Some ''overview'')
           (snd (setDisplaySelection quiet_env 5 ''s1'' [''a'', ''b''] (Some ''cash'')
                  empty_world)))))
     = Inr \<lparr>selected_tenant_ids = [''c''], current_view = ''overview''\<rparr>
   \<and> user_display_selection
        (snd (setDisplaySelection quiet_env 5 ''s1'' [''a'', ''b''] (Some ''cash'')
          (snd (setDisplaySelection quiet_env 5 ''s1'' [''a'', ''b''] (Some ''cash'')
                 empty_world))))
     = user_display_selection
         (snd (setDisplaySelection quiet_env 5 ''s1'' [''a'', ''b''] (Some ''cash'') empty_world))
   \<and> fst (getDisplaySelection quiet_env ''s1''
         (snd (setDisplaySelection quiet_env 9 ''s1'' [''a'', ''b''] (Some ''cash'')
           (snd (setDisplaySelection quiet_env 5 ''s1'' [''a'', ''b''] (Some ''cash'')
                  empty_world)))))
     = Inr \<lparr>selected_tenant_ids = [''a'', ''b''], current_view = ''cash''\<rparr>"
proof -
  have quiet: "\<forall>n q. pool_fault quiet_env n q = None"
    by (simp add: quiet_env_def)
  from selection_round_trip_and_overwrite [OF quiet, of "''s1''" 5 "[''a'', ''b'']" "''cash''"
      empty_world 9 "[''c'']" "''overview''"]
  show ?thesis by simp
qed

section \<open>Properties of the balance sheet reduction\<close>

lemma tb_row_step:
  "tb_row t (a, l, q) r =
     (if str_includes t ''asset'' then (foldl js_add a (nonzero_amounts [r]), l, q)
      else if str_includes t ''liabilit''
        then (a, foldl js_add l (map js_abs (nonzero_amounts [r])), q)
      else if str_includes t ''equity'' then (a, l, foldl js_add q (nonzero_amounts [r]))
      else (a, l, q))"
  by (simp add: tb_row_def nonzero_amounts_def is_value_row_def row_amount_def Let_def
      split: option.split)

lemma nonzero_amounts_Cons: "nonzero_amounts (r # rs) = nonzero_amounts [r] @ nonzero_amounts rs"
  by (simp add: nonzero_amounts_def)

lemma tb_row_fold:
  "foldl (tb_row t) (a, l, q) rs =
     (if str_includes t ''asset'' then (foldl js_add a (nonzero_amounts rs), l, q)
      else if str_includes t ''liabilit''
        then (a, foldl js_add l (map js_abs (nonzero_amounts rs)), q)
      else if str_includes t ''equity'' then (a, l, foldl js_add q (nonzero_amounts rs))
      else (a, l, q))"
proof (induction rs arbitrary: a l q)
  case Nil
  show ?case by (simp add: nonzero_amounts_def)
next
  case (Cons r rs)
  show ?case
    by (simp add: tb_row_step Cons.IH nonzero_amounts_Cons [of r rs])
qed

lemma tb_section_step:
  "tb_section (a, l, q) s =
     (foldl js_add a (section_amounts AssetSection s),
      foldl js_add l (map js_abs (section_amounts LiabilitySection s)),
      foldl js_add q (section_amounts EquitySection s))"
  by (simp add: tb_section_def section_amounts_def classify_title_def truthy_string_def
      tb_row_fold split: option.split)

lemma tb_section_fold:
  "foldl tb_section (a, l, q) bs =
     (foldl js_add a (class_amounts AssetSection bs),
      foldl js_add l (map js_abs (class_amounts LiabilitySection bs)),
      foldl js_add q (class_amounts EquitySection bs))"
proof (induction bs arbitrary: a l q)
  case Nil
  show ?case by (simp add: class_amounts_def)
next
  case (Cons s bs)
  have step: "class_amounts c (s # bs) = section_amounts c s @ class_amounts c bs" for c
    by (simp add: class_amounts_def)
  show ?case
    by (simp add: tb_section_step Cons.IH step)
qed

lemma trial_balance_totals_sums:
  "totalAssets (trial_balance_totals bs) = js_sum (class_amounts AssetSection bs)
   \<and> totalLiabilities (trial_balance_totals bs)
       = js_sum (map js_abs (class_amounts LiabilitySection bs))
   \<and> totalEquity (trial_balance_totals bs) = js_sum (class_amounts EquitySection bs)
   \<and> isBalanced (trial_balance_totals bs)
       = js_less (js_abs (js_sub (totalAssets (trial_balance_totals bs))
                    (js_add (totalLiabilities (trial_balance_totals bs))
                            (totalEquity (trial_balance_totals bs))))) (Finite 1)"
  by (simp add: trial_balance_totals_def tb_section_fold js_sum_def)

lemma double_below_one:
  "round_double (999999 / 1000000) = Finite (9007190247541737 / 9007199254740992)"
  by (simp add: double_eval)

text \<open>
  Claim C6. When the balance sheet fetch returns a response, \<open>loadTrialBalanceTotals\<close>
  returns totals with: \<open>totalAssets\<close> the sum of the amounts of the value rows in the
  labelled sections whose title contains \<open>asset\<close> (case-insensitively), rows with amount
  zero left out; \<open>totalLiabilities\<close> the sum of the absolute values of those amounts in
  the \<open>liabilit\<close> sections; \<open>totalEquity\<close> the sum over the \<open>equity\<close> sections; and
  \<open>isBalanced\<close> the strict comparison \<open>|assets - (liabilities + equity)| < 1\<close>. The sums
  and the discrepancy are computed in doubles, from left to right; when the discrepancy
  so computed is \<open>1\<close> the totals are not balanced, and when it is the double \<open>0.999999\<close>
  they are.
\<close>

theorem trial_balance_reduction:
  assumes "getReportBalanceSheet e tenant = Inr r"
  shows
    "\<exists>t. loadTrialBalanceTotals e tenant = Inr t
       \<and> totalAssets t = js_sum (class_amounts AssetSection (first_report_rows r))
       \<and> totalLiabilities t
           = js_sum (map js_abs (class_amounts LiabilitySection (first_report_rows r)))
       \<and> totalEquity t = js_sum (class_amounts EquitySection (first_report_rows r))
       \<and> isBalanced t
           = js_less (js_abs (js_sub (totalAssets t)
                        (js_add (totalLiabilities t) (totalEquity t)))) (Finite 1)
       \<and> (\<forall>d. js_abs (js_sub (totalAssets t) (js_add (totalLiabilities t) (totalEquity t)))
                 = Finite d
             \<longrightarrow> (isBalanced t \<longleftrightarrow> d < 1)
                \<and> (d = 1 \<longrightarrow> \<not> isBalanced t)
                \<and> (round_double (999999 / 1000000) = Finite d \<longrightarrow> isBalanced t))"
proof -
  let ?t = "trial_balance_totals (first_report_rows r)"
  let ?d = "js_abs (js_sub (totalAssets ?t) (js_add (totalLiabilities ?t) (totalEquity ?t)))"
  have ret: "loadTrialBalanceTotals e tenant = Inr ?t"
    using assms by (simp add: loadTrialBalanceTotals_def)
  have bal: "isBalanced ?t = js_less ?d (Finite 1)"
    using trial_balance_totals_sums [of "first_report_rows r"] by blast
  have edge: "(isBalanced ?t \<longleftrightarrow> d < 1) \<and> (d = 1 \<longrightarrow> \<not> isBalanced ?t)
      \<and> (round_double (999999 / 1000000) = Finite d \<longrightarrow> isBalanced ?t)"
    if "?d = Finite d" for d
    using that bal by (auto simp: double_below_one)
  show ?thesis
    using ret trial_balance_totals_sums [of "first_report_rows r"] edge by blast
qed

lemmas report_eval =
  loadTrialBalanceTotals_def trial_balance_totals_def tb_section_def tb_row_def
  first_report_rows_def cell_amount_def truthy_string_def toLowerCase_def lower_char_def
  upper_letters_def lower_letters_def str_includes_def sublist_code(3) parseFloat_def
  unsigned_literal_def is_space_def is_digit_def digits_value_def scale10_def js_sub_def
  Let_def double_eval

theorem trial_balance_reduction_witness:
  "loadTrialBalanceTotals books_env ''t1''
     = Inr \<lparr>totalAssets = Finite 101, totalLiabilities = Finite 60, totalEquity = Finite 40,
            isBalanced = False\<rparr>
   \<and> loadTrialBalanceTotals books_env ''t2''
     = Inr \<lparr>totalAssets = Finite (888405386446915 / 8796093022208),
            totalLiabilities = Finite 60, totalEquity = Finite 40, isBalanced = True\<rparr>
   \<and> loadTrialBalanceTotals books_env ''t3''
     = Inr \<lparr>totalAssets = Finite (2589569785738035 / 2251799813685248),
            totalLiabilities = Finite (5404319552844595 / 36028797018963968),
            totalEquity = Finite 0, isBalanced = True\<rparr>"
proof -
  have f1: "getReportBalanceSheet books_env ''t1'' = Inr (balance_sheet ''101'')"
    and f2: "getReportBalanceSheet books_env ''t2'' = Inr (balance_sheet ''100.999999'')"
    and f3: "getReportBalanceSheet books_env ''t3'' = Inr rounded_sheet"
    by (simp_all add: books_env_def)
  have v1: "loadTrialBalanceTotals books_env ''t1''
     = Inr \<lparr>totalAssets = Finite 101, totalLiabilities = Finite 60, totalEquity = Finite 40,
            isBalanced = False\<rparr>"
    by (simp add: report_eval books_env_def balance_sheet_def value_row_def)
  have v2: "loadTrialBalanceTotals books_env ''t2''
     = Inr \<lparr>totalAssets = Finite (888405386446915 / 8796093022208),
            totalLiabilities = Finite 60, totalEquity = Finite 40, isBalanced = True\<rparr>"
    by (simp add: report_eval books_env_def balance_sheet_def value_row_def)
  have v3: "loadTrialBalanceTotals books_env ''t3''
     = Inr \<lparr>totalAssets = Finite (2589569785738035 / 2251799813685248),
            totalLiabilities = Finite (5404319552844595 / 36028797018963968),
            totalEquity = Finite 0, isBalanced = True\<rparr>"
    by (simp add: report_eval books_env_def rounded_sheet_def value_row_def)
  from trial_balance_reduction [OF f1] trial_balance_reduction [OF f2]
    trial_balance_reduction [OF f3] v1 v2 v3
  show ?thesis by simp
qed

section \<open>Properties of the bank summary reduction\<close>

lemma cash_bank_row_step:
  "cash_bank_row acc r =
     (if is_bank_row r \<and> bank_label r \<noteq> [] \<and> \<not> is_total_label (bank_label r)
      then js_add acc (bank_amount r) else acc)"
  by (cases "cells r")
     (auto simp: cash_bank_row_def is_bank_row_def bank_label_def bank_amount_def
        is_total_label_def truthy_string_def Let_def hd_conv_nth neq_Nil_conv nth_Cons'
        split: list.split option.split)

lemma cash_bank_row_fold:
  "foldl cash_bank_row acc rs = foldl js_add acc (map bank_amount (labelled_rows_but_totals rs))"
proof -
  have eq: "cash_bank_row
          = (\<lambda>a r. if is_bank_row r \<and> bank_label r \<noteq> [] \<and> \<not> is_total_label (bank_label r)
                    then js_add a (bank_amount r) else a)"
    by (intro ext) (rule cash_bank_row_step)
  show ?thesis
    unfolding labelled_rows_but_totals_def by (subst eq) (rule foldl_guarded_add)
qed

lemma cash_section_fold:
  "foldl cash_section acc bs = foldl js_add acc (cash_amounts labelled_rows_but_totals bs)"
  unfolding cash_amounts_def
  by (rule foldl_sections) (simp add: cash_section_def cash_bank_row_fold split: option.split)

text \<open>
  Claim C8, as amended. When the bank summary fetch returns a response,
  \<open>loadCashPosition\<close> returns as \<open>totalCash\<close> the sum (in doubles, from left to right) of
  the fifth cell over the rows of type \<open>Row\<close> with at least five cells inside the
  \<open>Section\<close> rows, leaving out the rows whose label is missing or empty and the rows
  whose label contains \<open>total\<close> (case-insensitively).
\<close>

theorem cash_position_reduction:
  assumes "getReportBankSummary e tenant = Inr r"
  shows "loadCashPosition e tenant
           = Inr \<lparr>totalCash = js_sum (cash_amounts labelled_rows_but_totals (first_report_rows r))\<rparr>"
  using assms
  by (simp add: loadCashPosition_def cash_total_def cash_section_fold js_sum_def)

lemmas cash_eval =
  cash_amounts_def labelled_rows_but_totals_def rows_but_totals_def is_bank_row_def
  bank_label_def bank_amount_def is_total_label_def first_report_rows_def cell_amount_def
  truthy_string_def toLowerCase_def lower_char_def upper_letters_def lower_letters_def
  str_includes_def sublist_code(3) parseFloat_def unsigned_literal_def is_space_def
  is_digit_def digits_value_def scale10_def js_sum_def Let_def double_eval

theorem cash_position_reduction_witness:
  "loadCashPosition bank_env ''t1'' = Inr \<lparr>totalCash = Finite (501 / 2)\<rparr>
   \<and> loadCashPosition bank_env ''t2''
       = Inr \<lparr>totalCash = Finite (1351079888211149 / 4503599627370496)\<rparr>"
proof -
  have f: "getReportBankSummary bank_env ''t1'' = Inr bank_summary"
    and g: "getReportBankSummary bank_env ''t2'' = Inr decimal_summary"
    by (simp_all add: bank_env_def)
  have "js_sum (cash_amounts labelled_rows_but_totals (first_report_rows bank_summary))
          = Finite (501 / 2)"
    by (simp add: cash_eval bank_summary_def bank_row_def)
  moreover
  have "js_sum (cash_amounts labelled_rows_but_totals (first_report_rows decimal_summary))
          = Finite (1351079888211149 / 4503599627370496)"
    by (simp add: cash_eval decimal_summary_def bank_row_def)
  ultimately show ?thesis
    using cash_position_reduction [OF f] cash_position_reduction [OF g] by simp
qed

text \<open>
  The claim as stated fails: on the bank summary above the row without a label is left
  out of \<open>totalCash\<close>, although its label does not contain \<open>total\<close>; leaving out the
  rows of totals alone would give \<open>350.50\<close>.
\<close>

theorem cash_position_counterexample:
  "loadCashPosition bank_env ''t1'' = Inr \<lparr>totalCash = Finite (501 / 2)\<rparr>
   \<and> js_sum (cash_amounts rows_but_totals (first_report_rows bank_summary)) = Finite (701 / 2)"
  by (simp add: loadCashPosition_def cash_total_def cash_section_def cash_bank_row_def
      bank_env_def cash_eval bank_summary_def bank_row_def)

section \<open>Effects of the company loader\<close>

lemma insert_company_row_eq:
  "insert_company_row e row w =
     (case pool_fault e (length (query_log w)) (InsertCompanyRow row) of
        Some err \<Rightarrow> (Inl err, w\<lparr>query_log := query_log w @ [InsertCompanyRow row]\<rparr>)
      | None \<Rightarrow>
          (Inr (), w\<lparr>query_log := query_log w @ [InsertCompanyRow row],
                     session_company_data := session_company_data w @ [row]\<rparr>))"
  by (simp add: insert_company_row_def pool_query_def Let_def split: option.split)

lemma load_try_Inr:
  assumes "load_try e sid t ex w = (Inr r, w1)"
  shows "\<exists>tok. getXeroToken e t = Inr (Some tok) \<and> setTokenSet e tok = None
           \<and> r = \<lparr>success = True, lr_tenantId = t,
                   data = Some (company_data sid t tok (catch_null (loadTrialBalanceTotals e t))
                                  (catch_null (loadCashPosition e t)) ex),
                   error = None\<rparr>
           \<and> pool_fault e (length (query_log w))
                (InsertCompanyRow (company_data sid t tok (catch_null (loadTrialBalanceTotals e t))
                                  (catch_null (loadCashPosition e t)) ex)) = None
           \<and> w1 = w\<lparr>query_log := query_log w @
                       [InsertCompanyRow (company_data sid t tok
                          (catch_null (loadTrialBalanceTotals e t))
                          (catch_null (loadCashPosition e t)) ex)],
                     session_company_data := session_company_data w @
                       [company_data sid t tok (catch_null (loadTrialBalanceTotals e t))
                          (catch_null (loadCashPosition e t)) ex]\<rparr>"
  using assms
  by (auto simp: load_try_def insert_company_row_eq Let_def
      split: sum.splits option.splits)

lemma load_try_Inl:
  assumes "load_try e sid t ex w = (Inl err, w1)"
  shows "session_company_data w1 = session_company_data w
         \<and> user_display_selection w1 = user_display_selection w
         \<and> (\<exists>qs. query_log w1 = query_log w @ qs \<and> list_all (is_insert_for sid) qs)"
  using assms
  by (auto simp: load_try_def insert_company_row_eq Let_def is_insert_for_def company_data_def
      split: sum.splits option.splits)

lemma loader_Inr:
  assumes "loadSingleCompanyData e sid t ex w = (Inr r, w1)"
  shows "lr_tenantId r = t
         \<and> session_company_data w1 = session_company_data w @ [row_of_result sid ex r]
         \<and> session_id (row_of_result sid ex r) = sid
         \<and> tenant_id (row_of_result sid ex r) = t
         \<and> expires_at (row_of_result sid ex r) = ex
         \<and> user_display_selection w1 = user_display_selection w
         \<and> (\<exists>qs. query_log w1 = query_log w @ qs \<and> list_all (is_insert_for sid) qs
                \<and> InsertCompanyRow (row_of_result sid ex r) \<in> set qs)"
proof (cases "load_try e sid t ex w")
  case (Pair res w0)
  show ?thesis
  proof (cases res)
    case (Inr r0)
    with Pair assms have eq: "r = r0" "w1 = w0"
      by (simp_all add: loadSingleCompanyData_def)
    from load_try_Inr [of e sid t ex w r0 w0] Pair Inr eq show ?thesis
      by (auto simp: row_of_result_def company_data_def is_insert_for_def)
  next
    case (Inl err)
    from load_try_Inl [of e sid t ex w err w0] Pair Inl
    obtain qs where pre: "session_company_data w0 = session_company_data w"
      "user_display_selection w0 = user_display_selection w"
      "query_log w0 = query_log w @ qs" "list_all (is_insert_for sid) qs"
      by auto
    from Pair Inl assms pre show ?thesis
      by (auto simp: loadSingleCompanyData_def insert_company_row_eq row_of_result_def
          error_row_def is_insert_for_def split: option.splits)
  qed
qed

lemma loader_Inl:
  assumes "loadSingleCompanyData e sid t ex w = (Inl err, w1)"
  shows "session_company_data w1 = session_company_data w
         \<and> user_display_selection w1 = user_display_selection w
         \<and> (\<exists>qs. query_log w1 = query_log w @ qs \<and> list_all (is_insert_for sid) qs)"
proof (cases "load_try e sid t ex w")
  case (Pair res w0)
  show ?thesis
  proof (cases res)
    case (Inr r0)
    with Pair assms show ?thesis by (simp add: loadSingleCompanyData_def)
  next
    case (Inl err0)
    from load_try_Inl [of e sid t ex w err0 w0] Pair Inl
    obtain qs where pre: "session_company_data w0 = session_company_data w"
      "user_display_selection w0 = user_display_selection w"
      "query_log w0 = query_log w @ qs" "list_all (is_insert_for sid) qs"
      by auto
    from Pair Inl assms pre show ?thesis
      by (auto simp: loadSingleCompanyData_def insert_company_row_eq error_row_def
          is_insert_for_def split: option.splits)
  qed
qed

lemma loader_no_fault:
  assumes "\<forall>n q. pool_fault e n q = None"
  shows "\<exists>r w1. loadSingleCompanyData e sid t ex w = (Inr r, w1)
               \<and> success r = credential_applies e t"
  using assms
  by (auto simp: loadSingleCompanyData_def load_try_def insert_company_row_eq Let_def
      credential_applies_def split: sum.splits option.splits)

section \<open>Properties of the session loader\<close>

lemma delete_session_rows_eq:
  "delete_session_rows e sid w =
     (case pool_fault e (length (query_log w)) (DeleteSessionRows sid) of
        Some err \<Rightarrow> (Inl err, w\<lparr>query_log := query_log w @ [DeleteSessionRows sid]\<rparr>)
      | None \<Rightarrow>
          (Inr (), w\<lparr>query_log := query_log w @ [DeleteSessionRows sid],
                     session_company_data :=
                       filter (\<lambda>c. session_id c \<noteq> sid) (session_company_data w)\<rparr>))"
  by (simp add: delete_session_rows_def pool_query_def Let_def split: option.split)

lemma setDisplaySelection_eq:
  "setDisplaySelection e now sid ids (Some v) w =
     (case pool_fault e (length (query_log w)) (UpsertSelection sid ids v) of
        Some err \<Rightarrow> (Inl err, w\<lparr>query_log := query_log w @ [UpsertSelection sid ids v]\<rparr>)
      | None \<Rightarrow>
          (Inr (), w\<lparr>query_log := query_log w @ [UpsertSelection sid ids v],
                     user_display_selection :=
                       (user_display_selection w)
                         (sid \<mapsto> \<lparr>selected_tenant_ids = ids, current_view = v,
                                   last_updated = now\<rparr>)\<rparr>))"
  by (simp add: setDisplaySelection_def pool_query_def Let_def split: option.split)

lemma promise_all_Cons_Inr:
  "promise_all (x # xs) = Inr rs \<Longrightarrow> \<exists>r rs'. x = Inr r \<and> promise_all xs = Inr rs' \<and> rs = r # rs'"
  by (cases x) (auto split: sum.splits)

lemma load_all_effect:
  assumes "load_all e sid ex ts w = (outs, w1)"
  shows "length outs \<le> length ts
         \<and> user_display_selection w1 = user_display_selection w
         \<and> (\<exists>qs. query_log w1 = query_log w @ qs \<and> list_all (is_insert_for sid) qs
               \<and> (\<forall>rs. promise_all outs = Inr rs \<longrightarrow>
                    map lr_tenantId rs = ts
                    \<and> session_company_data w1
                        = session_company_data w @ map (row_of_result sid ex) rs
                    \<and> list_all (\<lambda>r. InsertCompanyRow (row_of_result sid ex r) \<in> set qs
                                   \<and> session_id (row_of_result sid ex r) = sid
                                   \<and> expires_at (row_of_result sid ex r) = ex
                        \<and> tenant_id (row_of_result sid ex r) = lr_tenantId r) rs))"
  using assms
proof (induction ts arbitrary: w outs w1)
  case Nil
  then show ?case by simp
next
  case (Cons t ts)
  obtain x wa where one: "loadSingleCompanyData e sid t ex w = (x, wa)"
    by (cases "loadSingleCompanyData e sid t ex w")
  show ?case
  proof (cases x)
    case (Inl err)
    from Cons.prems one Inl have res: "outs = [Inl err]" "w1 = wa"
      by simp_all
    from loader_Inl [of e sid t ex w err wa] one Inl obtain qs1 where
      "user_display_selection wa = user_display_selection w"
      "query_log wa = query_log w @ qs1" "list_all (is_insert_for sid) qs1"
      by auto
    with res show ?thesis
      by (intro conjI exI [of _ qs1]) simp_all
  next
    case (Inr r)
    obtain xs wb where rest: "load_all e sid ex ts wa = (xs, wb)"
      by (cases "load_all e sid ex ts wa")
    from Cons.prems one Inr rest have res: "outs = x # xs" "w1 = wb"
      by simp_all
    from Cons.IH [OF rest] obtain qs2 where ih:
      "length xs \<le> length ts"
      "user_display_selection wb = user_display_selection wa"
      "query_log wb = query_log wa @ qs2" "list_all (is_insert_for sid) qs2"
      "\<And>rs. promise_all xs = Inr rs \<Longrightarrow>
          map lr_tenantId rs = ts
          \<and> session_company_data wb = session_company_data wa @ map (row_of_result sid ex) rs
          \<and> list_all (\<lambda>r. InsertCompanyRow (row_of_result sid ex r) \<in> set qs2
                         \<and> session_id (row_of_result sid ex r) = sid
                         \<and> expires_at (row_of_result sid ex r) = ex
                          \<and> tenant_id (row_of_result sid ex r) = lr_tenantId r) rs"
      by blast
    from loader_Inr [of e sid t ex w r wa] one Inr obtain qs1 where l:
      "lr_tenantId r = t"
      "session_company_data wa = session_company_data w @ [row_of_result sid ex r]"
      "session_id (row_of_result sid ex r) = sid"
      "expires_at (row_of_result sid ex r) = ex"
      "tenant_id (row_of_result sid ex r) = t"
      "user_display_selection wa = user_display_selection w"
      "query_log wa = query_log w @ qs1" "list_all (is_insert_for sid) qs1"
      "InsertCompanyRow (row_of_result sid ex r) \<in> set qs1"
      by auto
    have "map lr_tenantId rs = t # ts
          \<and> session_company_data wb = session_company_data w @ map (row_of_result sid ex) rs
          \<and> list_all (\<lambda>r. InsertCompanyRow (row_of_result sid ex r) \<in> set (qs1 @ qs2)
                         \<and> session_id (row_of_result sid ex r) = sid
                         \<and> expires_at (row_of_result sid ex r) = ex
                        \<and> tenant_id (row_of_result sid ex r) = lr_tenantId r) rs"
      if "promise_all (x # xs) = Inr rs" for rs
    proof -
      from promise_all_Cons_Inr [OF that] Inr obtain rs' where
        p: "promise_all xs = Inr rs'" "rs = r # rs'"
        by auto
      from ih(5) [OF p(1)] l p(2) show ?thesis
        by (auto simp: list_all_iff)
    qed
    with ih l res show ?thesis
      by (intro conjI exI [of _ "qs1 @ qs2"]) simp_all
  qed
qed

lemma load_all_no_fault:
  assumes "\<forall>n q. pool_fault e n q = None"
  shows "\<exists>outs rs w1. load_all e sid ex ts w = (outs, w1) \<and> promise_all outs = Inr rs
           \<and> map success rs = map (credential_applies e) ts"
proof (induction ts arbitrary: w)
  case Nil
  show ?case by simp
next
  case (Cons t ts)
  from loader_no_fault [OF assms, of sid t ex w] obtain r wa where
    one: "loadSingleCompanyData e sid t ex w = (Inr r, wa)" "success r = credential_applies e t"
    by blast
  from Cons.IH [of wa] obtain outs rs wb where
    rest: "load_all e sid ex ts wa = (outs, wb)" "promise_all outs = Inr rs"
      "map success rs = map (credential_applies e) ts"
    by blast
  from one rest show ?case by simp
qed

lemma loader_result_shape:
  assumes "loadSingleCompanyData e sid t ex w = (Inr r, w1)"
  shows "load_error (row_of_result sid ex r) = None
         \<or> (load_error (row_of_result sid ex r) \<noteq> None
            \<and> has_data (row_of_result sid ex r) = Some False)"
  using assms
  by (auto simp: loadSingleCompanyData_def load_try_def insert_company_row_eq Let_def
      row_of_result_def company_data_def error_row_def split: sum.splits option.splits)

lemma load_all_shape:
  assumes "load_all e sid ex ts w = (outs, w1)" and "promise_all outs = Inr rs"
  shows "list_all (\<lambda>r. load_error (row_of_result sid ex r) = None
                      \<or> (load_error (row_of_result sid ex r) \<noteq> None
                         \<and> has_data (row_of_result sid ex r) = Some False)) rs"
  using assms
proof (induction ts arbitrary: w outs w1 rs)
  case Nil
  then show ?case by auto
next
  case (Cons t ts)
  obtain x wa where one: "loadSingleCompanyData e sid t ex w = (x, wa)"
    by (cases "loadSingleCompanyData e sid t ex w")
  obtain xs wb where rest: "load_all e sid ex ts wa = (xs, wb)"
    by (cases "load_all e sid ex ts wa")
  from Cons.prems one obtain r0 where x: "x = Inr r0"
    by (cases x) auto
  from Cons.prems(1) one rest x have res: "outs = x # xs"
    by simp
  from promise_all_Cons_Inr [of x xs rs] Cons.prems(2) res obtain r rs' where
    p: "x = Inr r" "promise_all xs = Inr rs'" "rs = r # rs'"
    by auto
  from loader_result_shape [of e sid t ex w r wa] one p(1) Cons.IH [OF rest p(2)] p(3)
  show ?case by simp
qed

lemma session_load_Inr:
  assumes "loadSessionData e now sid ids w = (Inr r, w1)"
  shows "\<exists>rs qs.
           r = \<lparr>sr_sessionId = sid, totalCompanies = length ids,
                successfulCompanies = length (filter success rs),
                sr_expiresAt = now + sessionTTL\<rparr>
         \<and> promise_all (fst (load_all e sid (now + sessionTTL) ids
                                (snd (delete_session_rows e sid w)))) = Inr rs
         \<and> map lr_tenantId rs = ids
         \<and> session_company_data w1
             = filter (\<lambda>c. session_id c \<noteq> sid) (session_company_data w)
               @ map (row_of_result sid (now + sessionTTL)) rs
         \<and> list_all (\<lambda>x. InsertCompanyRow (row_of_result sid (now + sessionTTL) x) \<in> set qs
                        \<and> session_id (row_of_result sid (now + sessionTTL) x) = sid
                        \<and> expires_at (row_of_result sid (now + sessionTTL) x) = now + sessionTTL
                        \<and> tenant_id (row_of_result sid (now + sessionTTL) x) = lr_tenantId x) rs
         \<and> list_all (\<lambda>x. load_error (row_of_result sid (now + sessionTTL) x) = None
                        \<or> (load_error (row_of_result sid (now + sessionTTL) x) \<noteq> None
                           \<and> has_data (row_of_result sid (now + sessionTTL) x) = Some False)) rs
         \<and> query_log w1
             = query_log w @ DeleteSessionRows sid # qs @ [UpsertSelection sid ids ''overview'']
         \<and> list_all (is_insert_for sid) qs
         \<and> user_display_selection w1 sid
             = Some \<lparr>selected_tenant_ids = ids, current_view = ''overview'', last_updated = now\<rparr>"
proof -
  let ?ex = "now + sessionTTL"
  let ?wd = "w\<lparr>query_log := query_log w @ [DeleteSessionRows sid],
               session_company_data :=
                 filter (\<lambda>c. session_id c \<noteq> sid) (session_company_data w)\<rparr>"
  from assms have del: "delete_session_rows e sid w = (Inr (), ?wd)"
    by (auto simp: loadSessionData_def delete_session_rows_eq Let_def split: option.splits)
  obtain outs w2 where la: "load_all e sid ?ex ids ?wd = (outs, w2)"
    by (cases "load_all e sid ?ex ids ?wd")
  from assms del la obtain rs where pa: "promise_all outs = Inr rs"
    by (auto simp: loadSessionData_def Let_def split: sum.splits)
  from assms del la pa have fin:
    "setDisplaySelection e now sid ids (Some ''overview'') w2 = (Inr (), w1)"
    "r = \<lparr>sr_sessionId = sid, totalCompanies = length ids,
          successfulCompanies = length (filter success rs), sr_expiresAt = ?ex\<rparr>"
    by (auto simp: loadSessionData_def Let_def split: sum.splits prod.splits)
  from fin(1) have w1: "w1 = w2\<lparr>query_log := query_log w2 @ [UpsertSelection sid ids ''overview''],
      user_display_selection := (user_display_selection w2)
        (sid \<mapsto> \<lparr>selected_tenant_ids = ids, current_view = ''overview'', last_updated = now\<rparr>)\<rparr>"
    by (auto simp: setDisplaySelection_eq split: option.splits)
  from load_all_effect [OF la] pa obtain qs where eff:
    "query_log w2 = query_log ?wd @ qs" "list_all (is_insert_for sid) qs"
    "map lr_tenantId rs = ids"
    "session_company_data w2 = session_company_data ?wd @ map (row_of_result sid ?ex) rs"
    "list_all (\<lambda>r. InsertCompanyRow (row_of_result sid ?ex r) \<in> set qs
                  \<and> session_id (row_of_result sid ?ex r) = sid
                  \<and> expires_at (row_of_result sid ?ex r) = ?ex
                        \<and> tenant_id (row_of_result sid ?ex r) = lr_tenantId r) rs"
    by blast
  note shape = load_all_shape [OF la pa]
  show ?thesis
    apply (rule exI [of _ rs])
    apply (rule exI [of _ qs])
    using fin(2) del la pa eff shape w1 by simp
qed

lemma session_load_no_fault:
  assumes "\<forall>n q. pool_fault e n q = None"
  shows "fst (loadSessionData e now sid ids w)
           = Inr \<lparr>sr_sessionId = sid, totalCompanies = length ids,
                  successfulCompanies = length (filter (credential_applies e) ids),
                  sr_expiresAt = now + sessionTTL\<rparr>"
proof -
  let ?ex = "now + sessionTTL"
  let ?wd = "w\<lparr>query_log := query_log w @ [DeleteSessionRows sid],
               session_company_data :=
                 filter (\<lambda>c. session_id c \<noteq> sid) (session_company_data w)\<rparr>"
  from assms have del: "delete_session_rows e sid w = (Inr (), ?wd)"
    by (simp add: delete_session_rows_eq)
  from load_all_no_fault [OF assms, of sid ?ex ids ?wd] obtain outs rs w2 where
    la: "load_all e sid ?ex ids ?wd = (outs, w2)" "promise_all outs = Inr rs"
      "map success rs = map (credential_applies e) ids"
    by blast
  have "length (filter success rs) = length (filter (\<lambda>b. b) (map success rs))"
    by (simp add: filter_map o_def)
  also have "\<dots> = length (filter (credential_applies e) ids)"
    by (simp add: la(3) filter_map o_def)
  finally have cnt: "length (filter success rs) = length (filter (credential_applies e) ids)" .
  from assms del la cnt show ?thesis
    by (simp add: loadSessionData_def Let_def setDisplaySelection_eq)
qed

lemma filter_session_new:
  assumes "list_all (\<lambda>x. session_id (f x) = sid) rs"
  shows "filter (\<lambda>c. session_id c = sid) (filter (\<lambda>c. session_id c \<noteq> sid) old @ map f rs)
           = map f rs"
proof -
  have "filter (\<lambda>c. session_id c = sid) (filter (\<lambda>c. session_id c \<noteq> sid) old) = []"
    by (induction old) simp_all
  moreover from assms have "filter (\<lambda>c. session_id c = sid) (map f rs) = map f rs"
    by (induction rs) simp_all
  ultimately show ?thesis by simp
qed

lemma distinct_count_one:
  assumes "distinct ids" and "t \<in> set ids"
  shows "length (filter (\<lambda>x. x = t) ids) = 1"
  using assms by (induction ids) (auto simp: filter_empty_conv)

text \<open>
  Claim C1. Whatever the collaborators do, when the store accepts every statement
  \<open>loadSessionData\<close> returns; and whenever it returns, the rows of the session in
  table \<open>session_company_data\<close> are as many as the requested identifiers and carry
  exactly those identifiers (with their multiplicities), each row being a success row
  (\<open>load_error\<close> null) or an error row (\<open>has_data\<close> false, \<open>load_error\<close> set). For
  distinct identifiers this is exactly one row per identifier.
\<close>

theorem one_row_per_company:
  "((\<forall>n q. pool_fault e n q = None) \<longrightarrow> (\<exists>r. fst (loadSessionData e now sid ids w) = Inr r))
   \<and> (\<forall>r w1. loadSessionData e now sid ids w = (Inr r, w1) \<longrightarrow>
         mset (map tenant_id (session_rows sid w1)) = mset ids
         \<and> length (session_rows sid w1) = length ids
         \<and> list_all (\<lambda>c. load_error c = None
                          \<or> (load_error c \<noteq> None \<and> has_data c = Some False))
              (session_rows sid w1)
         \<and> (distinct ids \<longrightarrow>
              list_all (\<lambda>t. length (filter (\<lambda>c. tenant_id c = t) (session_rows sid w1)) = 1)
                ids))"
proof (intro conjI allI impI)
  assume "\<forall>n q. pool_fault e n q = None"
  from session_load_no_fault [OF this, of now sid ids w]
  show "\<exists>r. fst (loadSessionData e now sid ids w) = Inr r" by blast
next
  fix r w1
  assume ret: "loadSessionData e now sid ids w = (Inr r, w1)"
  let ?row = "row_of_result sid (now + sessionTTL)"
  from session_load_Inr [OF ret] obtain rs qs where
    ids: "map lr_tenantId rs = ids"
    and tab: "session_company_data w1
               = filter (\<lambda>c. session_id c \<noteq> sid) (session_company_data w) @ map ?row rs"
    and new: "list_all (\<lambda>x. InsertCompanyRow (?row x) \<in> set qs \<and> session_id (?row x) = sid
                           \<and> expires_at (?row x) = now + sessionTTL
                           \<and> tenant_id (?row x) = lr_tenantId x) rs"
    and shape: "list_all (\<lambda>x. load_error (?row x) = None
                   \<or> (load_error (?row x) \<noteq> None \<and> has_data (?row x) = Some False)) rs"
    by blast
  from new have "list_all (\<lambda>x. session_id (?row x) = sid) rs"
    by (simp add: list_all_iff)
  from filter_session_new [OF this] tab have rows: "session_rows sid w1 = map ?row rs"
    by (simp add: session_rows_def)
  from new have "map tenant_id (map ?row rs) = map lr_tenantId rs"
    by (simp add: list_all_iff)
  with rows ids have tenants: "map tenant_id (session_rows sid w1) = ids"
    by simp
  then show "mset (map tenant_id (session_rows sid w1)) = mset ids"
    by simp
  from tenants have "length (map tenant_id (session_rows sid w1)) = length ids"
    by simp
  then show "length (session_rows sid w1) = length ids"
    by simp
  from shape rows show "list_all (\<lambda>c. load_error c = None
      \<or> (load_error c \<noteq> None \<and> has_data c = Some False)) (session_rows sid w1)"
    by (simp add: list_all_iff)
  show "list_all (\<lambda>t. length (filter (\<lambda>c. tenant_id c = t) (session_rows sid w1)) = 1) ids"
    if "distinct ids"
  proof -
    have "length (filter (\<lambda>c. tenant_id c = t) (session_rows sid w1)) = 1" if "t \<in> set ids" for t
    proof -
      have "length (filter (\<lambda>c. tenant_id c = t) (session_rows sid w1))
              = length (filter (\<lambda>x. x = t) (map tenant_id (session_rows sid w1)))"
        by (simp add: filter_map o_def)
      also have "\<dots> = 1"
        using distinct_count_one [OF \<open>distinct ids\<close> that] tenants by simp
      finally show ?thesis .
    qed
    then show ?thesis by (simp add: list_all_iff)
  qed
qed

theorem one_row_per_company_witness:
  "mset (map tenant_id (session_rows ''s1''
      (snd (loadSessionData group_env 0 ''s1'' [''t1'', ''t2'', ''t3''] used_world))))
     = mset [''t1'', ''t2'', ''t3'']
   \<and> length (session_rows ''s1''
      (snd (loadSessionData group_env 0 ''s1'' [''t1'', ''t2'', ''t3''] used_world))) = 3"
proof -
  let ?run = "loadSessionData group_env 0 ''s1'' [''t1'', ''t2'', ''t3''] used_world"
  have quiet: "\<forall>n q. pool_fault group_env n q = None"
    by (simp add: group_env_def)
  note inst = one_row_per_company [of group_env 0 "''s1''" "[''t1'', ''t2'', ''t3'']" used_world]
  from inst quiet obtain r where "fst ?run = Inr r"
    by blast
  then have "?run = (Inr r, snd ?run)"
    by (cases ?run) simp
  with inst show ?thesis
    by fastforce
qed

text \<open>
  Claim C2. When \<open>loadSessionData\<close> returns, the statements it sent are the DELETE of
  the session's rows, then INSERTs of rows of the session, then the upsert of the
  selection; the table consists of the rows of the other sessions followed by rows that
  were inserted by those INSERTs, each expiring at the new expiry; so the rows
  \<open>getConsolidatedData\<close> can select for the session, under any selection and at any
  time, are among the newly inserted ones. The result and the store after the call do
  not depend on the rows the session had before.
\<close>

theorem reload_discards_prior_generation:
  assumes "loadSessionData e now sid ids w = (Inr r, w1)"
  shows
    "(\<exists>new qs.
        query_log w1
          = query_log w @ DeleteSessionRows sid # qs @ [UpsertSelection sid ids ''overview'']
      \<and> list_all (is_insert_for sid) qs
      \<and> session_company_data w1
          = filter (\<lambda>c. session_id c \<noteq> sid) (session_company_data w) @ new
      \<and> list_all (\<lambda>c. InsertCompanyRow c \<in> set qs \<and> session_id c = sid
                       \<and> expires_at c = now + sessionTTL) new
      \<and> (\<forall>t sel. live_rows t sid sel (session_company_data w1) = live_rows t sid sel new))
     \<and> (\<forall>w0. filter (\<lambda>c. session_id c \<noteq> sid) (session_company_data w0)
                 = filter (\<lambda>c. session_id c \<noteq> sid) (session_company_data w)
               \<and> user_display_selection w0 = user_display_selection w
               \<and> query_log w0 = query_log w
             \<longrightarrow> loadSessionData e now sid ids w0 = (Inr r, w1))"
proof (intro conjI allI impI)
  let ?row = "row_of_result sid (now + sessionTTL)"
  from session_load_Inr [OF assms] obtain rs qs where
    tab: "session_company_data w1
               = filter (\<lambda>c. session_id c \<noteq> sid) (session_company_data w) @ map ?row rs"
    and new: "list_all (\<lambda>x. InsertCompanyRow (?row x) \<in> set qs \<and> session_id (?row x) = sid
                           \<and> expires_at (?row x) = now + sessionTTL
                           \<and> tenant_id (?row x) = lr_tenantId x) rs"
    and log: "query_log w1
               = query_log w @ DeleteSessionRows sid # qs @ [UpsertSelection sid ids ''overview'']"
    and ins: "list_all (is_insert_for sid) qs"
    by blast
  have old: "live_rows t sid sel (filter (\<lambda>c. session_id c \<noteq> sid) xs) = []" for t sel xs
    by (induction xs) (simp_all add: live_rows_def)
  have live: "live_rows t sid sel (session_company_data w1) = live_rows t sid sel (map ?row rs)"
    for t sel
    using old [of t sel "session_company_data w"] by (simp add: tab live_rows_def)
  from new have new': "list_all (\<lambda>c. InsertCompanyRow c \<in> set qs \<and> session_id c = sid
                       \<and> expires_at c = now + sessionTTL) (map ?row rs)"
    by (simp add: list_all_iff)
  show "\<exists>new qs.
        query_log w1
          = query_log w @ DeleteSessionRows sid # qs @ [UpsertSelection sid ids ''overview'']
      \<and> list_all (is_insert_for sid) qs
      \<and> session_company_data w1
          = filter (\<lambda>c. session_id c \<noteq> sid) (session_company_data w) @ new
      \<and> list_all (\<lambda>c. InsertCompanyRow c \<in> set qs \<and> session_id c = sid
                       \<and> expires_at c = now + sessionTTL) new
      \<and> (\<forall>t sel. live_rows t sid sel (session_company_data w1) = live_rows t sid sel new)"
    apply (rule exI [of _ "map ?row rs"])
    apply (rule exI [of _ qs])
    using log ins tab new' live by simp
next
  fix w0 :: world
  assume same: "filter (\<lambda>c. session_id c \<noteq> sid) (session_company_data w0)
                 = filter (\<lambda>c. session_id c \<noteq> sid) (session_company_data w)
               \<and> user_display_selection w0 = user_display_selection w
               \<and> query_log w0 = query_log w"
  from assms have ok: "pool_fault e (length (query_log w)) (DeleteSessionRows sid) = None"
    by (auto simp: loadSessionData_def delete_session_rows_eq Let_def split: option.splits)
  have "w0\<lparr>query_log := query_log w0 @ [DeleteSessionRows sid],
           session_company_data :=
             filter (\<lambda>c. session_id c \<noteq> sid) (session_company_data w0)\<rparr>
        = w\<lparr>query_log := query_log w @ [DeleteSessionRows sid],
            session_company_data :=
              filter (\<lambda>c. session_id c \<noteq> sid) (session_company_data w)\<rparr>"
    using same by simp
  with ok same have "delete_session_rows e sid w0 = delete_session_rows e sid w"
    by (simp add: delete_session_rows_eq)
  with assms show "loadSessionData e now sid ids w0 = (Inr r, w1)"
    by (simp add: loadSessionData_def)
qed

theorem reload_discards_prior_generation_witness:
  "list_all (\<lambda>c. expires_at c = sessionTTL)
     (live_rows 0 ''s1'' [''t1'', ''t2'', ''t3'', ''t9'']
        (session_company_data
           (snd (loadSessionData group_env 0 ''s1'' [''t1'', ''t2'', ''t3''] used_world))))
   \<and> loadSessionData group_env 0 ''s1'' [''t1'', ''t2'', ''t3'']
        (used_world\<lparr>session_company_data := [error_row ''s2'' ''t1'' ''other'' 5000000]\<rparr>)
      = loadSessionData group_env 0 ''s1'' [''t1'', ''t2'', ''t3''] used_world"
proof -
  let ?ids = "[''t1'', ''t2'', ''t3'']"
  let ?run = "loadSessionData group_env 0 ''s1'' ?ids used_world"
  let ?w0 = "used_world\<lparr>session_company_data := [error_row ''s2'' ''t1'' ''other'' 5000000]\<rparr>"
  have quiet: "\<forall>n q. pool_fault group_env n q = None"
    by (simp add: group_env_def)
  from session_load_no_fault [OF quiet, of 0 "''s1''" ?ids used_world]
  obtain r where "fst ?run = Inr r"
    by blast
  then have run: "?run = (Inr r, snd ?run)"
    by (cases ?run) simp
  note inst = reload_discards_prior_generation [OF run]
  from inst obtain new qs where
    new: "list_all (\<lambda>c. InsertCompanyRow c \<in> set qs \<and> session_id c = ''s1''
                       \<and> expires_at c = 0 + sessionTTL) new"
    and live: "\<And>t sel. live_rows t ''s1'' sel (session_company_data (snd ?run))
                        = live_rows t ''s1'' sel new"
    by blast
  from new have "list_all (\<lambda>c. expires_at c = sessionTTL)
      (live_rows 0 ''s1'' [''t1'', ''t2'', ''t3'', ''t9''] new)"
    by (simp add: list_all_iff live_rows_def)
  with live have first: "list_all (\<lambda>c. expires_at c = sessionTTL)
      (live_rows 0 ''s1'' [''t1'', ''t2'', ''t3'', ''t9''] (session_company_data (snd ?run)))"
    by simp
  have "filter (\<lambda>c. session_id c \<noteq> ''s1'') (session_company_data ?w0)
          = filter (\<lambda>c. session_id c \<noteq> ''s1'') (session_company_data used_world)
        \<and> user_display_selection ?w0 = user_display_selection used_world
        \<and> query_log ?w0 = query_log used_world"
    by (simp add: used_world_def error_row_def)
  with inst have "loadSessionData group_env 0 ''s1'' ?ids ?w0 = (Inr r, snd ?run)"
    by blast
  with run first show ?thesis
    by simp
qed

lemma world_after_Cons:
  "world_after e sid ex (t # ts) w
     = world_after e sid ex ts (snd (loadSingleCompanyData e sid t ex w))"
  by (simp add: world_after_def)

lemma load_all_run:
  assumes "load_all e sid ex ts w = (outs, w1)" and "promise_all outs = Inr rs"
  shows "length rs = length ts \<and> w1 = world_after e sid ex ts w
         \<and> (\<forall>i<length ts.
               loadSingleCompanyData e sid (ts ! i) ex (world_after e sid ex (take i ts) w)
                 = (Inr (rs ! i), world_after e sid ex (take (Suc i) ts) w))"
  using assms
proof (induction ts arbitrary: w outs w1 rs)
  case Nil
  then show ?case by (auto simp: world_after_def)
next
  case (Cons t ts)
  obtain x wa where one: "loadSingleCompanyData e sid t ex w = (x, wa)"
    by (cases "loadSingleCompanyData e sid t ex w")
  obtain xs wb where rest: "load_all e sid ex ts wa = (xs, wb)"
    by (cases "load_all e sid ex ts wa")
  from Cons.prems one obtain r0 where x: "x = Inr r0"
    by (cases x) auto
  from Cons.prems(1) one rest x have res: "outs = Inr r0 # xs" "w1 = wb"
    by simp_all
  from promise_all_Cons_Inr [of "Inr r0" xs rs] Cons.prems(2) res obtain rs' where
    p: "promise_all xs = Inr rs'" "rs = r0 # rs'"
    by auto
  from Cons.IH [OF rest p(1)] have ih:
    "length rs' = length ts" "wb = world_after e sid ex ts wa"
    "\<And>i. i < length ts \<Longrightarrow>
        loadSingleCompanyData e sid (ts ! i) ex (world_after e sid ex (take i ts) wa)
          = (Inr (rs' ! i), world_after e sid ex (take (Suc i) ts) wa)"
    by simp_all
  have step: "loadSingleCompanyData e sid ((t # ts) ! i) ex
                (world_after e sid ex (take i (t # ts)) w)
              = (Inr (rs ! i), world_after e sid ex (take (Suc i) (t # ts)) w)"
    if "i < length (t # ts)" for i
  proof (cases i)
    case 0
    with one x p(2) show ?thesis
      by (simp add: world_after_def)
  next
    case (Suc k)
    with that have "k < length ts" by simp
    from ih(3) [OF this] Suc one p(2) show ?thesis
      by (simp add: world_after_Cons)
  qed
  from ih(1,2) res(2) one p(2) step show ?case
    by (simp add: world_after_Cons)
qed

lemma load_all_raise:
  assumes "i < length ts"
    and "\<forall>j<i. \<exists>r. fst (loadSingleCompanyData e sid (ts ! j) ex
                        (world_after e sid ex (take j ts) w)) = Inr r"
    and "fst (loadSingleCompanyData e sid (ts ! i) ex (world_after e sid ex (take i ts) w))
           = Inl err"
  shows "\<exists>outs. load_all e sid ex ts w = (outs, world_after e sid ex (take (Suc i) ts) w)
           \<and> promise_all outs = Inl err"
  using assms
proof (induction ts arbitrary: i w)
  case Nil
  then show ?case by simp
next
  case (Cons t ts)
  obtain x wa where one: "loadSingleCompanyData e sid t ex w = (x, wa)"
    by (cases "loadSingleCompanyData e sid t ex w")
  show ?case
  proof (cases i)
    case 0
    with Cons.prems(3) one have "x = Inl err"
      by (simp add: world_after_def)
    with one 0 show ?thesis
      by (simp add: world_after_def)
  next
    case (Suc k)
    with Cons.prems(1) have k: "k < length ts" by simp
    from Cons.prems(2) Suc have "\<exists>r. fst (loadSingleCompanyData e sid ((t # ts) ! 0) ex
        (world_after e sid ex (take 0 (t # ts)) w)) = Inr r"
      by blast
    with one obtain r where x: "x = Inr r"
      by (auto simp: world_after_def)
    have before: "\<forall>j<k. \<exists>r. fst (loadSingleCompanyData e sid (ts ! j) ex
                        (world_after e sid ex (take j ts) wa)) = Inr r"
    proof (intro allI impI)
      fix j assume "j < k"
      then have "Suc j < i" using Suc by simp
      with Cons.prems(2) have "\<exists>r. fst (loadSingleCompanyData e sid ((t # ts) ! Suc j) ex
          (world_after e sid ex (take (Suc j) (t # ts)) w)) = Inr r"
        by blast
      with one show "\<exists>r. fst (loadSingleCompanyData e sid (ts ! j) ex
                        (world_after e sid ex (take j ts) wa)) = Inr r"
        by (simp add: world_after_Cons)
    qed
    from Cons.prems(3) Suc one
    have at: "fst (loadSingleCompanyData e sid (ts ! k) ex (world_after e sid ex (take k ts) wa))
                = Inl err"
      by (simp add: world_after_Cons)
    from Cons.IH [OF k before at] obtain outs where
      "load_all e sid ex ts wa = (outs, world_after e sid ex (take (Suc k) ts) wa)"
      "promise_all outs = Inl err"
      by blast
    with one x Suc show ?thesis
      by (simp add: world_after_Cons)
  qed
qed

text \<open>
  Claim C4. Whenever \<open>loadSessionData\<close> returns, the loader \<open>loadSingleCompanyData\<close> was
  run for every identifier of the list, each in the store the loaders before it left,
  every one of them returned a result (of success or of failure), the table is the one
  the loaders left, and the value returned has \<open>totalCompanies\<close> the length of the list
  and \<open>successfulCompanies\<close> the number of loaders whose result has \<open>success\<close> true.
  When the store accepts every statement it does return, whatever credentials are
  missing and whatever fetches fail. But \<open>Promise.all\<close> does short-circuit: when the
  DELETE succeeds and a loader of the list throws while those before it have returned,
  \<open>loadSessionData\<close> throws that error at once, in the store that loader left (no
  statement of a later loader, no upsert of the selection) and returns no counts.
\<close>

theorem session_load_counts:
  "(\<forall>r w1. loadSessionData e now sid ids w = (Inr r, w1) \<longrightarrow>
      (\<exists>rs. length rs = length ids
           \<and> (\<forall>i<length ids.
                 loadSingleCompanyData e sid (ids ! i) (now + sessionTTL)
                   (world_after e sid (now + sessionTTL) (take i ids)
                      (snd (delete_session_rows e sid w)))
                 = (Inr (rs ! i),
                    world_after e sid (now + sessionTTL) (take (Suc i) ids)
                      (snd (delete_session_rows e sid w))))
           \<and> totalCompanies r = length ids
           \<and> successfulCompanies r = length (filter success rs)
           \<and> session_company_data w1
               = session_company_data
                   (world_after e sid (now + sessionTTL) ids
                      (snd (delete_session_rows e sid w)))))
   \<and> ((\<forall>n q. pool_fault e n q = None) \<longrightarrow>
        fst (loadSessionData e now sid ids w)
          = Inr \<lparr>sr_sessionId = sid, totalCompanies = length ids,
                 successfulCompanies = length (filter (credential_applies e) ids),
                 sr_expiresAt = now + sessionTTL\<rparr>)
   \<and> (\<forall>i err. i < length ids
          \<and> fst (delete_session_rows e sid w) = Inr ()
          \<and> (\<forall>j<i. \<exists>r. fst (loadSingleCompanyData e sid (ids ! j) (now + sessionTTL)
                            (world_after e sid (now + sessionTTL) (take j ids)
                               (snd (delete_session_rows e sid w)))) = Inr r)
          \<and> fst (loadSingleCompanyData e sid (ids ! i) (now + sessionTTL)
                   (world_after e sid (now + sessionTTL) (take i ids)
                      (snd (delete_session_rows e sid w)))) = Inl err
        \<longrightarrow> loadSessionData e now sid ids w
              = (Inl err,
                 world_after e sid (now + sessionTTL) (take (Suc i) ids)
                   (snd (delete_session_rows e sid w))))"
proof (intro conjI allI impI)
  fix r w1
  let ?ex = "now + sessionTTL"
  let ?wd = "snd (delete_session_rows e sid w)"
  assume ret: "loadSessionData e now sid ids w = (Inr r, w1)"
  then obtain wd where del: "delete_session_rows e sid w = (Inr (), wd)"
    by (cases "delete_session_rows e sid w")
       (auto simp: loadSessionData_def Let_def split: sum.splits)
  then have wd: "?wd = wd"
    by simp
  obtain outs w2 where la: "load_all e sid ?ex ids wd = (outs, w2)"
    by (cases "load_all e sid ?ex ids wd")
  from ret del la obtain rs where pa: "promise_all outs = Inr rs"
    by (auto simp: loadSessionData_def Let_def split: sum.splits)
  from ret del la pa have fin:
    "setDisplaySelection e now sid ids (Some ''overview'') w2 = (Inr (), w1)"
    "r = \<lparr>sr_sessionId = sid, totalCompanies = length ids,
          successfulCompanies = length (filter success rs), sr_expiresAt = ?ex\<rparr>"
    by (auto simp: loadSessionData_def Let_def split: sum.splits prod.splits)
  from fin(1) have tab: "session_company_data w1 = session_company_data w2"
    by (auto simp: setDisplaySelection_eq split: option.splits)
  from load_all_run [OF la pa] fin(2) tab
  show "\<exists>rs. length rs = length ids
           \<and> (\<forall>i<length ids.
                 loadSingleCompanyData e sid (ids ! i) ?ex (world_after e sid ?ex (take i ids) ?wd)
                 = (Inr (rs ! i), world_after e sid ?ex (take (Suc i) ids) ?wd))
           \<and> totalCompanies r = length ids
           \<and> successfulCompanies r = length (filter success rs)
           \<and> session_company_data w1 = session_company_data (world_after e sid ?ex ids ?wd)"
    unfolding wd by (intro exI [of _ rs]) simp
next
  assume "\<forall>n q. pool_fault e n q = None"
  from session_load_no_fault [OF this]
  show "fst (loadSessionData e now sid ids w)
          = Inr \<lparr>sr_sessionId = sid, totalCompanies = length ids,
                 successfulCompanies = length (filter (credential_applies e) ids),
                 sr_expiresAt = now + sessionTTL\<rparr>" .
next
  fix i err
  let ?ex = "now + sessionTTL"
  let ?wd = "snd (delete_session_rows e sid w)"
  assume h: "i < length ids
          \<and> fst (delete_session_rows e sid w) = Inr ()
          \<and> (\<forall>j<i. \<exists>r. fst (loadSingleCompanyData e sid (ids ! j) ?ex
                            (world_after e sid ?ex (take j ids) ?wd)) = Inr r)
          \<and> fst (loadSingleCompanyData e sid (ids ! i) ?ex
                   (world_after e sid ?ex (take i ids) ?wd)) = Inl err"
  then obtain wd where del: "delete_session_rows e sid w = (Inr (), wd)"
    by (cases "delete_session_rows e sid w") auto
  then have wd: "?wd = wd"
    by simp
  from h have a: "i < length ids"
    and b: "\<forall>j<i. \<exists>r. fst (loadSingleCompanyData e sid (ids ! j) ?ex
                            (world_after e sid ?ex (take j ids) ?wd)) = Inr r"
    and c: "fst (loadSingleCompanyData e sid (ids ! i) ?ex
                   (world_after e sid ?ex (take i ids) ?wd)) = Inl err"
    by blast+
  from load_all_raise [OF a b c] obtain outs where
    la: "load_all e sid ?ex ids ?wd = (outs, world_after e sid ?ex (take (Suc i) ids) ?wd)"
    and pa: "promise_all outs = Inl err"
    by blast
  have "loadSessionData e now sid ids w
      = (case delete_session_rows e sid w of
           (Inl err, w1) \<Rightarrow> (Inl err, w1)
         | (Inr _, w1) \<Rightarrow>
             (case load_all e sid ?ex ids w1 of
                (loadPromises, w2) \<Rightarrow>
                  (case promise_all loadPromises of
                     Inl err \<Rightarrow> (Inl err, w2)
                   | Inr results \<Rightarrow>
                       (case setDisplaySelection e now sid ids (Some ''overview'') w2 of
                          (Inl err, w3) \<Rightarrow> (Inl err, w3)
                        | (Inr _, w3) \<Rightarrow>
                            (Inr \<lparr>sr_sessionId = sid, totalCompanies = length ids,
                                  successfulCompanies = length (filter success results),
                                  sr_expiresAt = ?ex\<rparr>, w3)))))"
    by (simp add: loadSessionData_def Let_def)
  also have "\<dots> = (Inl err, world_after e sid ?ex (take (Suc i) ids) ?wd)"
    using la pa unfolding wd by (simp add: del)
  finally show "loadSessionData e now sid ids w
              = (Inl err, world_after e sid ?ex (take (Suc i) ids) ?wd)" .
qed

theorem session_load_counts_witness:
  "getXeroToken group_env ''t2'' = Inr None
   \<and> fst (loadSessionData group_env 0 ''s1'' [''t1'', ''t2'', ''t3''] used_world)
       = Inr \<lparr>sr_sessionId = ''s1'', totalCompanies = 3, successfulCompanies = 2,
              sr_expiresAt = 1800000\<rparr>
   \<and> fst (loadSessionData locked_env 0 ''s1'' [''t1'', ''t2''] empty_world)
       = Inl (Error ''row rejected'')
   \<and> session_company_data (snd (loadSessionData locked_env 0 ''s1'' [''t1'', ''t2''] empty_world))
       = []
   \<and> user_display_selection
        (snd (loadSessionData locked_env 0 ''s1'' [''t1'', ''t2''] empty_world)) ''s1'' = None
   \<and> length (query_log (snd (loadSessionData locked_env 0 ''s1'' [''t1'', ''t2''] empty_world)))
       = 3"
proof -
  have quiet: "\<forall>n q. pool_fault group_env n q = None"
    by (simp add: group_env_def)
  have two: "length (filter (credential_applies group_env) [''t1'', ''t2'', ''t3'']) = 2"
    by (simp add: credential_applies_def group_env_def)
  let ?wd = "snd (delete_session_rows locked_env ''s1'' empty_world)"
  have del: "fst (delete_session_rows locked_env ''s1'' empty_world) = Inr ()"
    by (simp add: delete_session_rows_eq locked_env_def)
  have wd: "?wd = empty_world\<lparr>query_log := [DeleteSessionRows ''s1'']\<rparr>"
    by (simp add: delete_session_rows_eq locked_env_def empty_world_def)
  have one: "loadSingleCompanyData locked_env ''s1'' ''t1'' sessionTTL ?wd
      = (Inl (Error ''row rejected''),
         empty_world\<lparr>query_log :=
           [DeleteSessionRows ''s1'',
            InsertCompanyRow (company_data ''s1'' ''t1'' \<lparr>tenantName = ''Acme''\<rparr> None None
                                sessionTTL),
            InsertCompanyRow (error_row ''s1'' ''t1'' ''row rejected'' sessionTTL)]\<rparr>)"
    unfolding wd
    by (simp add: loadSingleCompanyData_def load_try_def insert_company_row_eq locked_env_def
        loadTrialBalanceTotals_def loadCashPosition_def catch_null_def company_data_def
        error_row_def empty_world_def Let_def)
  have "loadSessionData locked_env 0 ''s1'' [''t1'', ''t2''] empty_world
      = (Inl (Error ''row rejected''),
         world_after locked_env ''s1'' (0 + sessionTTL) (take (Suc 0) [''t1'', ''t2'']) ?wd)"
    by (rule session_load_counts [of locked_env 0 "''s1''" "[''t1'', ''t2'']" empty_world,
          THEN conjunct2, THEN conjunct2, rule_format, of 0 "Error ''row rejected''"])
       (simp add: del world_after_def one)
  then have run: "loadSessionData locked_env 0 ''s1'' [''t1'', ''t2''] empty_world
      = (Inl (Error ''row rejected''),
         snd (loadSingleCompanyData locked_env ''s1'' ''t1'' sessionTTL ?wd))"
    by (simp add: world_after_def)
  from session_load_counts [of group_env 0 "''s1''" "[''t1'', ''t2'', ''t3'']" used_world]
    quiet two
  have "fst (loadSessionData group_env 0 ''s1'' [''t1'', ''t2'', ''t3''] used_world)
       = Inr \<lparr>sr_sessionId = ''s1'', totalCompanies = 3, successfulCompanies = 2,
              sr_expiresAt = 1800000\<rparr>"
    by (simp add: sessionTTL_def)
  moreover have "getXeroToken group_env ''t2'' = Inr None"
    by (simp add: group_env_def)
  ultimately show ?thesis
    unfolding run one
    by (simp add: empty_world_def)
qed

section \<open>Properties of the consolidator\<close>

lemma getDisplaySelection_eq:
  "getDisplaySelection e sid w =
     (case pool_fault e (length (query_log w)) (SelectSelection sid) of
        Some err \<Rightarrow> (Inl err, w\<lparr>query_log := query_log w @ [SelectSelection sid]\<rparr>)
      | None \<Rightarrow>
          (Inr \<lparr>selected_tenant_ids = resolved_selection None sid w,
                current_view = (case user_display_selection w sid of
                                  None \<Rightarrow> ''overview'' | Some r \<Rightarrow> current_view r)\<rparr>,
           w\<lparr>query_log := query_log w @ [SelectSelection sid]\<rparr>))"
  by (simp add: getDisplaySelection_def pool_query_def Let_def resolved_selection_def
      split: option.split)

lemma select_live_rows_eq:
  "select_live_rows e now sid ids w =
     (case pool_fault e (length (query_log w)) (SelectLiveRows sid ids) of
        Some err \<Rightarrow> (Inl err, w\<lparr>query_log := query_log w @ [SelectLiveRows sid ids]\<rparr>)
      | None \<Rightarrow>
          (Inr (live_rows now sid ids (session_company_data w)),
           w\<lparr>query_log := query_log w @ [SelectLiveRows sid ids]\<rparr>))"
  by (simp add: select_live_rows_def pool_query_def Let_def split: option.split)

lemma consolidated_Inr:
  assumes "getConsolidatedData e now sid sel w = (Inr res, w1)"
  shows "res = consolidation_of (resolved_selection sel sid w)
                 (live_rows now sid (resolved_selection sel sid w) (session_company_data w))
         \<and> session_company_data w1 = session_company_data w
         \<and> user_display_selection w1 = user_display_selection w"
  using assms
  by (cases sel)
     (auto simp: getConsolidatedData_def getDisplaySelection_eq select_live_rows_eq
        consolidation_of_def resolved_selection_def
        split: option.splits if_splits)

lemma consolidated_Inl:
  assumes "fst (getConsolidatedData e now sid sel w) = Inl err"
  shows "\<exists>n q. pool_fault e n q = Some err"
  using assms
  by (cases sel)
     (auto simp: getConsolidatedData_def getDisplaySelection_eq select_live_rows_eq
        split: option.splits if_splits)

lemma consolidated_no_fault:
  assumes "\<forall>n q. pool_fault e n q = None"
  shows "fst (getConsolidatedData e now sid sel w)
           = Inr (consolidation_of (resolved_selection sel sid w)
                   (live_rows now sid (resolved_selection sel sid w) (session_company_data w)))"
  using assms
  by (cases sel)
     (auto simp: getConsolidatedData_def getDisplaySelection_eq select_live_rows_eq
        consolidation_of_def resolved_selection_def
        split: option.splits if_splits)

text \<open>
  Claim C7. Whenever \<open>getConsolidatedData\<close> returns, it returns the object with the
  message \<open>No companies selected\<close> if the resolved selection (the one passed, else the
  stored one, else the empty one) is empty; otherwise the object with the message
  \<open>No session data found or session expired\<close> if no row of the session matches the
  selection with an expiry in the future; otherwise a consolidated view. It returns
  whenever the store answers, and an exception it leaves with is an error of the store:
  neither condition is thrown.
\<close>

theorem consolidate_conditions:
  "(\<forall>res w1. getConsolidatedData e now sid sel w = (Inr res, w1) \<longrightarrow>
      res = (if resolved_selection sel sid w = [] then ErrorResult ''No companies selected''
             else if live_rows now sid (resolved_selection sel sid w) (session_company_data w) = []
               then ErrorResult ''No session data found or session expired''
             else Consolidated
                    (consolidate (live_rows now sid (resolved_selection sel sid w)
                                    (session_company_data w)))))
   \<and> ((\<forall>n q. pool_fault e n q = None) \<longrightarrow> (\<exists>res. fst (getConsolidatedData e now sid sel w) = Inr res))
   \<and> (\<forall>err. fst (getConsolidatedData e now sid sel w) = Inl err \<longrightarrow>
         (\<exists>n q. pool_fault e n q = Some err))"
proof (intro conjI allI impI)
  fix res w1
  assume "getConsolidatedData e now sid sel w = (Inr res, w1)"
  from consolidated_Inr [OF this]
  show "res = (if resolved_selection sel sid w = [] then ErrorResult ''No companies selected''
             else if live_rows now sid (resolved_selection sel sid w) (session_company_data w) = []
               then ErrorResult ''No session data found or session expired''
             else Consolidated
                    (consolidate (live_rows now sid (resolved_selection sel sid w)
                                    (session_company_data w))))"
    by (simp add: consolidation_of_def)
next
  assume "\<forall>n q. pool_fault e n q = None"
  from consolidated_no_fault [OF this, of now sid sel w]
  show "\<exists>res. fst (getConsolidatedData e now sid sel w) = Inr res"
    by blast
next
  fix err
  assume "fst (getConsolidatedData e now sid sel w) = Inl err"
  from consolidated_Inl [OF this] show "\<exists>n q. pool_fault e n q = Some err" .
qed

theorem consolidate_conditions_witness:
  "fst (getConsolidatedData quiet_env 0 ''s1'' None used_world)
     = Inr (ErrorResult ''No companies selected'')
   \<and> fst (getConsolidatedData quiet_env 0 ''s1'' (Some []) used_world)
     = Inr (ErrorResult ''No companies selected'')
   \<and> fst (getConsolidatedData quiet_env 0 ''s1'' (Some [''t1'']) used_world)
     = Inr (ErrorResult ''No session data found or session expired'')
   \<and> fst (getConsolidatedData quiet_env 5000000 ''s1'' (Some [''t9'']) used_world)
     = Inr (ErrorResult ''No session data found or session expired'')
   \<and> fst (getConsolidatedData quiet_env 0 ''s1'' (Some [''t9'']) used_world)
     = Inr (Consolidated (consolidate [error_row ''s1'' ''t9'' ''stale'' 5000000]))"
proof -
  have quiet: "\<forall>n q. pool_fault quiet_env n q = None"
    by (simp add: quiet_env_def)
  have ret: "getConsolidatedData quiet_env now ''s1'' sel used_world
               = (Inr res, snd (getConsolidatedData quiet_env now ''s1'' sel used_world))"
    if "fst (getConsolidatedData quiet_env now ''s1'' sel used_world) = Inr res" for now sel res
    using that by (cases "getConsolidatedData quiet_env now ''s1'' sel used_world") simp
  have val: "fst (getConsolidatedData quiet_env now ''s1'' sel used_world)
      = Inr (if resolved_selection sel ''s1'' used_world = []
             then ErrorResult ''No companies selected''
             else if live_rows now ''s1'' (resolved_selection sel ''s1'' used_world)
                       (session_company_data used_world) = []
               then ErrorResult ''No session data found or session expired''
             else Consolidated
                    (consolidate (live_rows now ''s1'' (resolved_selection sel ''s1'' used_world)
                                    (session_company_data used_world))))" for now sel
  proof -
    note inst = consolidate_conditions [of quiet_env now "''s1''" sel used_world]
    from inst quiet obtain res where
      r: "fst (getConsolidatedData quiet_env now ''s1'' sel used_world) = Inr res"
      by blast
    from inst have "\<And>res w1.
        getConsolidatedData quiet_env now ''s1'' sel used_world = (Inr res, w1)
        \<Longrightarrow> res = (if resolved_selection sel ''s1'' used_world = []
             then ErrorResult ''No companies selected''
             else if live_rows now ''s1'' (resolved_selection sel ''s1'' used_world)
                       (session_company_data used_world) = []
               then ErrorResult ''No session data found or session expired''
             else Consolidated
                    (consolidate (live_rows now ''s1'' (resolved_selection sel ''s1'' used_world)
                                    (session_company_data used_world))))"
      by blast
    from this [OF ret [OF r]] r show ?thesis
      by simp
  qed
  show ?thesis
    unfolding val
    by (simp add: resolved_selection_def live_rows_def used_world_def error_row_def)
qed

lemma number_or_zero_field_value: "number_or_zero x = field_value x"
  by (cases x rule: field_value.cases) (simp_all add: number_or_zero_def truthy_number_def)

lemma reduce_sum_js_sum: "reduce_sum f cs = js_sum (map (\<lambda>c. field_value (f c)) cs)"
  by (simp add: reduce_sum_def js_sum_def foldl_map number_or_zero_field_value)

lemma truthy_text_iff: "truthy_text s \<longleftrightarrow> s \<noteq> None \<and> s \<noteq> Some []"
  by (cases s) (simp_all add: truthy_text_def truthy_string_def)

text \<open>
  Claim C5. When \<open>getConsolidatedData\<close> returns a view, with \<open>cs\<close> the live rows
  selected: each of the seven totals is the sum over \<open>cs\<close> of the field (in doubles,
  from left to right), a missing or non-numeric field counting as \<open>0\<close>; the list of
  companies is the projection of the rows, in their order; and the summary counts the
  rows, the rows with \<open>is_balanced\<close> true and the rows with \<open>has_data\<close> true. The
  last count, \<open>companiesWithErrors\<close>, is not the number of rows with a non-null
  \<open>load_error\<close>: the filter tests the truthiness of the column, so a row whose
  \<open>load_error\<close> is the empty string is not counted.
\<close>

theorem consolidated_view_contents:
  assumes "getConsolidatedData e now sid sel w = (Inr (Consolidated v), w1)"
    and "cs = live_rows now sid (resolved_selection sel sid w) (session_company_data w)"
  shows
    "tot_totalAssets (totals v) = js_sum (map (\<lambda>c. field_value (total_assets c)) cs)
     \<and> tot_totalLiabilities (totals v) = js_sum (map (\<lambda>c. field_value (total_liabilities c)) cs)
     \<and> tot_totalEquity (totals v) = js_sum (map (\<lambda>c. field_value (total_equity c)) cs)
     \<and> tot_totalCash (totals v) = js_sum (map (\<lambda>c. field_value (total_cash c)) cs)
     \<and> tot_totalRevenue (totals v) = js_sum (map (\<lambda>c. field_value (total_revenue c)) cs)
     \<and> tot_totalExpenses (totals v) = js_sum (map (\<lambda>c. field_value (total_expenses c)) cs)
     \<and> tot_totalNetProfit (totals v) = js_sum (map (\<lambda>c. field_value (net_profit c)) cs)
     \<and> companies v
         = map (\<lambda>c. \<lparr>co_tenantId = tenant_id c, co_tenantName = tenant_name c,
                      co_totalAssets = field_value (total_assets c),
                      co_totalLiabilities = field_value (total_liabilities c),
                      co_totalEquity = field_value (total_equity c),
                      co_totalCash = field_value (total_cash c),
                      co_isBalanced = is_balanced c, co_hasData = has_data c,
                      co_error = load_error c\<rparr>) cs
     \<and> sm_totalCompanies (summary v) = length cs
     \<and> balancedCompanies (summary v) = length (filter (\<lambda>c. is_balanced c = Some True) cs)
     \<and> companiesWithData (summary v) = length (filter (\<lambda>c. has_data c = Some True) cs)
     \<and> companiesWithErrors (summary v)
         = length (filter (\<lambda>c. load_error c \<noteq> None) cs)
           - length (filter (\<lambda>c. load_error c = Some []) cs)
     \<and> cs \<noteq> []"
proof -
  from consolidated_Inr [OF assms(1)] assms(2)
  have res: "Consolidated v = consolidation_of (resolved_selection sel sid w) cs"
    by simp
  then have v: "v = consolidate cs" and ne: "cs \<noteq> []"
    by (auto simp: consolidation_of_def split: if_splits)
  have errs: "length (filter (\<lambda>c. load_error c \<noteq> None \<and> load_error c \<noteq> Some []) xs)
      = length (filter (\<lambda>c. load_error c \<noteq> None) xs)
        - length (filter (\<lambda>c. load_error c = Some []) xs)" for xs :: "company_row list"
  proof (induction xs)
    case Nil
    show ?case by simp
  next
    case (Cons x xs)
    have "length (filter (\<lambda>c. load_error c = Some []) xs)
            \<le> length (filter (\<lambda>c. load_error c \<noteq> None) xs)"
      by (induction xs) auto
    with Cons show ?case
      by (cases "load_error x") auto
  qed
  show ?thesis
    unfolding v using errs [of cs]
    by (simp add: consolidate_def reduce_sum_js_sum company_entry_def
        number_or_zero_field_value truthy_bool_def truthy_text_iff ne)
qed

theorem consolidated_view_contents_witness:
  "map load_error (live_rows 1 ''s1'' [''t1''] (session_company_data mute_world)) = [Some []]
   \<and> fst (getConsolidatedData quiet_env 1 ''s1'' (Some [''t1'']) mute_world)
     = Inr (Consolidated
         \<lparr>totals =
            \<lparr>tot_totalAssets = Finite 0, tot_totalLiabilities = Finite 0,
             tot_totalEquity = Finite 0, tot_totalCash = Finite 0,
             tot_totalRevenue = Finite 0, tot_totalExpenses = Finite 0,
             tot_totalNetProfit = Finite 0\<rparr>,
          companies =
            [\<lparr>co_tenantId = ''t1'', co_tenantName = ''Unknown Company'',
              co_totalAssets = Finite 0, co_totalLiabilities = Finite 0,
              co_totalEquity = Finite 0, co_totalCash = Finite 0,
              co_isBalanced = None, co_hasData = Some False, co_error = Some []\<rparr>],
          summary =
            \<lparr>sm_totalCompanies = 1, balancedCompanies = 0, companiesWithData = 0,
             companiesWithErrors = 0\<rparr>\<rparr>)
   \<and> tot_totalAssets (totals (consolidate decimal_rows))
       = Finite (1351079888211149 / 4503599627370496)"
proof -
  let ?cs = "[error_row ''s1'' ''t1'' [] (0 + sessionTTL)]"
  let ?run = "getConsolidatedData quiet_env 1 ''s1'' (Some [''t1'']) mute_world"
  have w: "session_company_data mute_world = ?cs"
    by (simp add: mute_world_def loadSessionData_def delete_session_rows_eq
        loadSingleCompanyData_def load_try_def insert_company_row_eq setDisplaySelection_eq
        mute_env_def empty_world_def Let_def)
  have quiet: "\<forall>n q. pool_fault quiet_env n q = None"
    by (simp add: quiet_env_def)
  have live: "?cs = live_rows 1 ''s1'' (resolved_selection (Some [''t1'']) ''s1'' mute_world)
                      (session_company_data mute_world)"
    by (simp add: w resolved_selection_def live_rows_def error_row_def sessionTTL_def)
  have live': "live_rows 1 ''s1'' [''t1''] (session_company_data mute_world) = ?cs"
    by (simp add: w live_rows_def error_row_def sessionTTL_def)
  from consolidated_no_fault [OF quiet, of 1 "''s1''" "Some [''t1'']" mute_world]
  have fstrun: "fst ?run = Inr (Consolidated (consolidate ?cs))"
    by (simp add: consolidation_of_def resolved_selection_def live')
  then have run: "?run = (Inr (Consolidated (consolidate ?cs)), snd ?run)"
    by (cases ?run) simp
  note facts = consolidated_view_contents [OF run live]
  have view: "consolidate ?cs
     = \<lparr>totals =
            \<lparr>tot_totalAssets = Finite 0, tot_totalLiabilities = Finite 0,
             tot_totalEquity = Finite 0, tot_totalCash = Finite 0,
             tot_totalRevenue = Finite 0, tot_totalExpenses = Finite 0,
             tot_totalNetProfit = Finite 0\<rparr>,
          companies =
            [\<lparr>co_tenantId = ''t1'', co_tenantName = ''Unknown Company'',
              co_totalAssets = Finite 0, co_totalLiabilities = Finite 0,
              co_totalEquity = Finite 0, co_totalCash = Finite 0,
              co_isBalanced = None, co_hasData = Some False, co_error = Some []\<rparr>],
          summary =
            \<lparr>sm_totalCompanies = 1, balancedCompanies = 0, companiesWithData = 0,
             companiesWithErrors = 0\<rparr>\<rparr>"
  proof -
    from facts have
      "companiesWithErrors (summary (consolidate ?cs))
         = length (filter (\<lambda>c. load_error c \<noteq> None) ?cs)
           - length (filter (\<lambda>c. load_error c = Some []) ?cs)"
      by blast
    then have "companiesWithErrors (summary (consolidate ?cs)) = 0"
      by (simp add: error_row_def)
    moreover have "consolidate ?cs
        = (consolidate ?cs)\<lparr>summary := (summary (consolidate ?cs))
             \<lparr>companiesWithErrors := companiesWithErrors (summary (consolidate ?cs))\<rparr>\<rparr>"
      by simp
    ultimately show ?thesis
      by (simp add: error_row_def consolidate_def reduce_sum_def number_or_zero_def
          company_entry_def truthy_bool_def truthy_text_def truthy_string_def
          round_double_zero)
  qed
  have dec: "tot_totalAssets (totals (consolidate decimal_rows))
       = Finite (1351079888211149 / 4503599627370496)"
    by (simp add: decimal_rows_def error_row_def consolidate_def reduce_sum_def
        number_or_zero_def truthy_number_def parseFloat_def unsigned_literal_def is_space_def
        is_digit_def digits_value_def scale10_def Let_def double_eval)
  from fstrun view dec show ?thesis
    by (simp add: w live_rows_def error_row_def sessionTTL_def)
qed

section \<open>Failures of one company load\<close>

lemma load_try_fails_iff:
  "(\<exists>err0 w0. load_try e sid t ex w = (Inl err0, w0))
     \<longleftrightarrow> (\<not> credential_applies e t
          \<or> (\<exists>tok. getXeroToken e t = Inr (Some tok)
                \<and> pool_fault e (length (query_log w))
                     (InsertCompanyRow
                        (company_data sid t tok (catch_null (loadTrialBalanceTotals e t))
                           (catch_null (loadCashPosition e t)) ex)) \<noteq> None))"
  by (auto simp: load_try_def insert_company_row_eq credential_applies_def Let_def
      split: sum.splits option.splits)

lemma loader_raises_iff:
  "(\<exists>err. fst (loadSingleCompanyData e sid t ex w) = Inl err)
     \<longleftrightarrow> (\<exists>err0 w0. load_try e sid t ex w = (Inl err0, w0)
            \<and> pool_fault e (length (query_log w0))
                 (InsertCompanyRow (error_row sid t (message err0) ex)) \<noteq> None)"
proof (cases "load_try e sid t ex w")
  case (Pair res w0)
  then show ?thesis
    by (cases res)
       (auto simp: loadSingleCompanyData_def insert_company_row_eq split: option.splits)
qed

lemma loader_converts_failure:
  assumes "load_try e sid t ex w = (Inl err0, w0)"
    and "pool_fault e (length (query_log w0))
           (InsertCompanyRow (error_row sid t (message err0) ex)) = None"
  shows "fst (loadSingleCompanyData e sid t ex w)
           = Inr \<lparr>success = False, lr_tenantId = t, data = None, error = Some (message err0)\<rparr>
         \<and> session_company_data (snd (loadSingleCompanyData e sid t ex w))
           = session_company_data w @ [error_row sid t (message err0) ex]"
  using assms load_try_Inl [OF assms(1)]
  by (simp add: loadSingleCompanyData_def insert_company_row_eq)

lemma loader_absorbs_fetch_failures:
  assumes "getXeroToken e t = Inr (Some tok)" and "setTokenSet e tok = None"
    and "pool_fault e (length (query_log w))
           (InsertCompanyRow
              (company_data sid t tok (catch_null (loadTrialBalanceTotals e t))
                 (catch_null (loadCashPosition e t)) ex)) = None"
  shows "fst (loadSingleCompanyData e sid t ex w)
           = Inr \<lparr>success = True, lr_tenantId = t,
                  data = Some (company_data sid t tok (catch_null (loadTrialBalanceTotals e t))
                                 (catch_null (loadCashPosition e t)) ex),
                  error = None\<rparr>
         \<and> session_company_data (snd (loadSingleCompanyData e sid t ex w))
           = session_company_data w
             @ [company_data sid t tok (catch_null (loadTrialBalanceTotals e t))
                  (catch_null (loadCashPosition e t)) ex]"
  using assms
  by (simp add: loadSingleCompanyData_def load_try_def insert_company_row_eq Let_def)

lemma company_data_flags:
  "load_error (company_data sid t tok tb cash ex) = None
   \<and> has_data (company_data sid t tok tb cash ex) = Some (tb \<noteq> None \<or> cash \<noteq> None)"
  by (simp add: company_data_def)

text \<open>
  Claim C3, as amended. \<open>loadSingleCompanyData\<close> leaves with an exception if and only if
  its \<open>try\<close> block failed and the store rejected the INSERT of the error row in the
  \<open>catch\<close> handler. The \<open>try\<close> block fails exactly when the credential is not found or
  cannot be applied, or when the store rejects the INSERT of the success row. When the
  INSERT of the error row is accepted, such a failure is converted into exactly one
  appended error row (\<open>has_data\<close> false, \<open>load_error\<close> the message, financial fields
  left to their defaults) and the result \<open>{success: false, error}\<close>. A failed report
  fetch is no such failure: with the credential applied and the INSERT accepted the
  loader appends a success row with \<open>load_error\<close> null (\<open>has_data\<close> false when both
  fetches failed) and returns \<open>success: true\<close>.
\<close>

theorem loader_failure_handling:
  "((\<exists>err. fst (loadSingleCompanyData e sid t ex w) = Inl err)
      \<longleftrightarrow> (\<exists>err0 w0. load_try e sid t ex w = (Inl err0, w0)
             \<and> pool_fault e (length (query_log w0))
                  (InsertCompanyRow (error_row sid t (message err0) ex)) \<noteq> None))
   \<and> ((\<exists>err0 w0. load_try e sid t ex w = (Inl err0, w0))
      \<longleftrightarrow> (\<not> credential_applies e t
           \<or> (\<exists>tok. getXeroToken e t = Inr (Some tok)
                 \<and> pool_fault e (length (query_log w))
                      (InsertCompanyRow
                         (company_data sid t tok (catch_null (loadTrialBalanceTotals e t))
                            (catch_null (loadCashPosition e t)) ex)) \<noteq> None)))
   \<and> (\<forall>err0 w0. load_try e sid t ex w = (Inl err0, w0)
          \<and> pool_fault e (length (query_log w0))
               (InsertCompanyRow (error_row sid t (message err0) ex)) = None
        \<longrightarrow> fst (loadSingleCompanyData e sid t ex w)
              = Inr \<lparr>success = False, lr_tenantId = t, data = None,
                     error = Some (message err0)\<rparr>
            \<and> session_company_data (snd (loadSingleCompanyData e sid t ex w))
              = session_company_data w @ [error_row sid t (message err0) ex]
            \<and> has_data (error_row sid t (message err0) ex) = Some False
            \<and> load_error (error_row sid t (message err0) ex) = Some (message err0)
            \<and> map (\<lambda>f. f (error_row sid t (message err0) ex))
                 [total_assets, total_liabilities, total_equity, total_cash,
                  total_revenue, total_expenses, net_profit]
              = replicate 7 None)
   \<and> (getXeroToken e t = Inr None
        \<longrightarrow> load_try e sid t ex w = (Inl (Error (''No token found for tenant '' @ t)), w))
   \<and> (\<forall>tok. getXeroToken e t = Inr (Some tok) \<and> setTokenSet e tok = None
          \<and> pool_fault e (length (query_log w))
               (InsertCompanyRow
                  (company_data sid t tok (catch_null (loadTrialBalanceTotals e t))
                     (catch_null (loadCashPosition e t)) ex)) = None
        \<longrightarrow> (\<exists>row. fst (loadSingleCompanyData e sid t ex w)
                     = Inr \<lparr>success = True, lr_tenantId = t, data = Some row, error = None\<rparr>
                 \<and> session_company_data (snd (loadSingleCompanyData e sid t ex w))
                     = session_company_data w @ [row]
                 \<and> load_error row = None
                 \<and> has_data row
                     = Some ((\<exists>r. getReportBalanceSheet e t = Inr r)
                             \<or> (\<exists>r. getReportBankSummary e t = Inr r))))"
proof (intro conjI allI impI)
  show "(\<exists>err. fst (loadSingleCompanyData e sid t ex w) = Inl err)
      \<longleftrightarrow> (\<exists>err0 w0. load_try e sid t ex w = (Inl err0, w0)
             \<and> pool_fault e (length (query_log w0))
                  (InsertCompanyRow (error_row sid t (message err0) ex)) \<noteq> None)"
    by (rule loader_raises_iff)
  show "(\<exists>err0 w0. load_try e sid t ex w = (Inl err0, w0))
      \<longleftrightarrow> (\<not> credential_applies e t
           \<or> (\<exists>tok. getXeroToken e t = Inr (Some tok)
                 \<and> pool_fault e (length (query_log w))
                      (InsertCompanyRow
                         (company_data sid t tok (catch_null (loadTrialBalanceTotals e t))
                            (catch_null (loadCashPosition e t)) ex)) \<noteq> None))"
    by (rule load_try_fails_iff)
next
  fix err0 w0
  assume a: "load_try e sid t ex w = (Inl err0, w0)
          \<and> pool_fault e (length (query_log w0))
               (InsertCompanyRow (error_row sid t (message err0) ex)) = None"
  from a loader_converts_failure [of e sid t ex w err0 w0]
  show "fst (loadSingleCompanyData e sid t ex w)
              = Inr \<lparr>success = False, lr_tenantId = t, data = None,
                     error = Some (message err0)\<rparr>"
    and "session_company_data (snd (loadSingleCompanyData e sid t ex w))
              = session_company_data w @ [error_row sid t (message err0) ex]"
    by simp_all
  show "has_data (error_row sid t (message err0) ex) = Some False"
    and "load_error (error_row sid t (message err0) ex) = Some (message err0)"
    and "map (\<lambda>f. f (error_row sid t (message err0) ex))
                 [total_assets, total_liabilities, total_equity, total_cash,
                  total_revenue, total_expenses, net_profit]
              = replicate 7 None"
    by (simp_all add: error_row_def numeral_eq_Suc)
next
  assume "getXeroToken e t = Inr None"
  then show "load_try e sid t ex w = (Inl (Error (''No token found for tenant '' @ t)), w)"
    by (simp add: load_try_def)
next
  fix tok
  assume a: "getXeroToken e t = Inr (Some tok) \<and> setTokenSet e tok = None
          \<and> pool_fault e (length (query_log w))
               (InsertCompanyRow
                  (company_data sid t tok (catch_null (loadTrialBalanceTotals e t))
                     (catch_null (loadCashPosition e t)) ex)) = None"
  let ?row = "company_data sid t tok (catch_null (loadTrialBalanceTotals e t))
                     (catch_null (loadCashPosition e t)) ex"
  have tb: "catch_null (loadTrialBalanceTotals e t) \<noteq> None
              \<longleftrightarrow> (\<exists>r. getReportBalanceSheet e t = Inr r)"
    by (cases "getReportBalanceSheet e t")
       (simp_all add: catch_null_def loadTrialBalanceTotals_def)
  have cash: "catch_null (loadCashPosition e t) \<noteq> None
              \<longleftrightarrow> (\<exists>r. getReportBankSummary e t = Inr r)"
    by (cases "getReportBankSummary e t")
       (simp_all add: catch_null_def loadCashPosition_def)
  from a loader_absorbs_fetch_failures [of e t tok w sid ex] company_data_flags [of sid t tok
      "catch_null (loadTrialBalanceTotals e t)" "catch_null (loadCashPosition e t)" ex] tb cash
  show "\<exists>row. fst (loadSingleCompanyData e sid t ex w)
                     = Inr \<lparr>success = True, lr_tenantId = t, data = Some row, error = None\<rparr>
                 \<and> session_company_data (snd (loadSingleCompanyData e sid t ex w))
                     = session_company_data w @ [row]
                 \<and> load_error row = None
                 \<and> has_data row
                     = Some ((\<exists>r. getReportBalanceSheet e t = Inr r)
                             \<or> (\<exists>r. getReportBankSummary e t = Inr r))"
    by (intro exI [of _ ?row]) simp
qed

theorem loader_failure_handling_witness:
  "fst (loadSingleCompanyData quiet_env ''s1'' ''t1'' 100 empty_world)
     = Inr \<lparr>success = False, lr_tenantId = ''t1'', data = None,
            error = Some ''No token found for tenant t1''\<rparr>
   \<and> session_company_data (snd (loadSingleCompanyData quiet_env ''s1'' ''t1'' 100 empty_world))
     = [error_row ''s1'' ''t1'' ''No token found for tenant t1'' 100]"
proof -
  note inst = loader_failure_handling [of quiet_env "''s1''" "''t1''" 100 empty_world]
  have "getXeroToken quiet_env ''t1'' = Inr None"
    by (simp add: quiet_env_def)
  with inst have tried: "load_try quiet_env ''s1'' ''t1'' 100 empty_world
      = (Inl (Error (''No token found for tenant '' @ ''t1'')), empty_world)"
    by blast
  have ok: "pool_fault quiet_env (length (query_log empty_world))
      (InsertCompanyRow (error_row ''s1'' ''t1''
         (message (Error (''No token found for tenant '' @ ''t1''))) 100)) = None"
    by (simp add: quiet_env_def)
  from inst tried ok have
    "fst (loadSingleCompanyData quiet_env ''s1'' ''t1'' 100 empty_world)
       = Inr \<lparr>success = False, lr_tenantId = ''t1'', data = None,
              error = Some (message (Error (''No token found for tenant '' @ ''t1'')))\<rparr>
     \<and> session_company_data (snd (loadSingleCompanyData quiet_env ''s1'' ''t1'' 100 empty_world))
       = session_company_data empty_world
         @ [error_row ''s1'' ''t1'' (message (Error (''No token found for tenant '' @ ''t1''))) 100]"
    by blast
  then show ?thesis
    by (simp add: empty_world_def)
qed

text \<open>
  The claim as stated fails twice. With the credential applied and both report fetches
  failing, the loader persists a success row (\<open>load_error\<close> null) and returns
  \<open>success: true\<close>: no error row. And when the store rejects the INSERT of the success
  row but accepts the next statement, the loader does not raise although a durable write
  failed: it returns \<open>success: false\<close>.
\<close>

theorem loader_failure_counterexample:
  "getReportBalanceSheet dark_env ''t1'' = Inl (Error ''unavailable'')
   \<and> getReportBankSummary dark_env ''t1'' = Inl (Error ''unavailable'')
   \<and> fst (loadSingleCompanyData dark_env ''s1'' ''t1'' 100 empty_world)
       = Inr \<lparr>success = True, lr_tenantId = ''t1'',
              data = Some (company_data ''s1'' ''t1'' \<lparr>tenantName = ''Acme''\<rparr> None None 100),
              error = None\<rparr>
   \<and> map load_error
        (session_company_data (snd (loadSingleCompanyData dark_env ''s1'' ''t1'' 100 empty_world)))
       = [None]
   \<and> pool_fault flaky_env 0
        (InsertCompanyRow (company_data ''s1'' ''t1'' \<lparr>tenantName = ''Acme''\<rparr> None None 100))
       = Some (Error ''value out of range'')
   \<and> fst (loadSingleCompanyData flaky_env ''s1'' ''t1'' 100 empty_world)
       = Inr \<lparr>success = False, lr_tenantId = ''t1'', data = None,
              error = Some ''value out of range''\<rparr>"
  by (simp add: loadSingleCompanyData_def load_try_def insert_company_row_eq Let_def
      catch_null_def loadTrialBalanceTotals_def loadCashPosition_def
      dark_env_def flaky_env_def empty_world_def company_data_def)

text \<open>
  Claim C10. When \<open>loadSingleCompanyData\<close> returns a failure, the row it appended is
  the error row: its \<open>tenant_name\<close> is \<open>Unknown Company\<close>, whatever the token provider
  had returned; and a consolidation of that company over the resulting store, before
  the expiry and with a store that answers, lists an entry of that company under the
  name \<open>Unknown Company\<close>.
\<close>

theorem failed_load_is_unknown_company:
  assumes "loadSingleCompanyData e sid t ex w = (Inr r, w1)" and "\<not> success r"
  shows
    "(\<exists>m. error r = Some m
         \<and> session_company_data w1 = session_company_data w @ [error_row sid t m ex])
     \<and> tenant_name (last (session_company_data w1)) = ''Unknown Company''
     \<and> (\<forall>e2 now2. now2 < ex \<and> (\<forall>n q. pool_fault e2 n q = None) \<longrightarrow>
           (\<exists>v. fst (getConsolidatedData e2 now2 sid (Some [t]) w1) = Inr (Consolidated v)
              \<and> (\<exists>c \<in> set (companies v).
                    co_tenantId c = t \<and> co_tenantName c = ''Unknown Company''
                    \<and> co_hasData c = Some False \<and> co_error c = error r)))"
proof -
  obtain res w0 where tried: "load_try e sid t ex w = (res, w0)"
    by (cases "load_try e sid t ex w")
  have "\<exists>err0. res = Inl err0"
  proof (cases res)
    case (Inr r0)
    with tried assms(1) have "r = r0" by (simp add: loadSingleCompanyData_def)
    with load_try_Inr [of e sid t ex w r0 w0] tried Inr assms(2) show ?thesis by auto
  qed simp
  then obtain err0 where res: "res = Inl err0" ..
  from load_try_Inl [of e sid t ex w err0 w0] tried res
  have pre: "session_company_data w0 = session_company_data w"
    by simp
  from assms(1) tried res pre have
    r: "error r = Some (message err0)"
    and tab: "session_company_data w1
               = session_company_data w @ [error_row sid t (message err0) ex]"
    by (auto simp: loadSingleCompanyData_def insert_company_row_eq split: option.splits)
  let ?row = "error_row sid t (message err0) ex"
  have name: "tenant_name (last (session_company_data w1)) = ''Unknown Company''"
    by (simp add: tab error_row_def)
  have view: "\<exists>v. fst (getConsolidatedData e2 now2 sid (Some [t]) w1) = Inr (Consolidated v)
              \<and> (\<exists>c \<in> set (companies v).
                    co_tenantId c = t \<and> co_tenantName c = ''Unknown Company''
                    \<and> co_hasData c = Some False \<and> co_error c = error r)"
    if "now2 < ex \<and> (\<forall>n q. pool_fault e2 n q = None)" for e2 now2
  proof -
    let ?live = "live_rows now2 sid [t] (session_company_data w1)"
    from that have mem: "?row \<in> set ?live"
      by (simp add: live_rows_def tab error_row_def)
    then have ne: "?live \<noteq> []"
      by auto
    from that consolidated_no_fault [of e2 now2 sid "Some [t]" w1] ne
    have run: "fst (getConsolidatedData e2 now2 sid (Some [t]) w1)
                 = Inr (Consolidated (consolidate ?live))"
      by (simp add: consolidation_of_def resolved_selection_def)
    from mem have "company_entry ?row \<in> set (companies (consolidate ?live))"
      by (simp add: consolidate_def)
    moreover have "co_tenantId (company_entry ?row) = t
        \<and> co_tenantName (company_entry ?row) = ''Unknown Company''
        \<and> co_hasData (company_entry ?row) = Some False
        \<and> co_error (company_entry ?row) = error r"
      by (simp add: company_entry_def error_row_def r)
    ultimately show ?thesis
      using run by blast
  qed
  from r tab name view show ?thesis
    by blast
qed

theorem failed_load_is_unknown_company_witness:
  "getXeroToken expired_env ''t1'' = Inr (Some \<lparr>tenantName = ''Acme''\<rparr>)
   \<and> map tenant_name
       (session_company_data (snd (loadSingleCompanyData expired_env ''s1'' ''t1'' 100 empty_world)))
     = [''Unknown Company'']"
proof -
  let ?run = "loadSingleCompanyData expired_env ''s1'' ''t1'' 100 empty_world"
  have run: "?run = (Inr \<lparr>success = False, lr_tenantId = ''t1'', data = None,
                          error = Some ''token expired''\<rparr>, snd ?run)"
    by (simp add: loadSingleCompanyData_def load_try_def insert_company_row_eq
        expired_env_def empty_world_def)
  from failed_load_is_unknown_company [OF run]
  obtain m where "session_company_data (snd ?run)
      = session_company_data empty_world @ [error_row ''s1'' ''t1'' m 100]"
    by auto
  then show ?thesis
    by (simp add: empty_world_def error_row_def expired_env_def)
qed

end
